theory Spec2Isabelle
  imports Main "HOL-Library.AList"
begin

section \<open>Syntax trees as the analyzer reads them\<close>

text \<open>
  The analyzer (\<^verbatim>\<open>ast-analyzer.ts\<close>) works on the syntax tree and the scope objects that
  the parser and traversal library hand to it. The tree is modelled by the node kinds the
  analyzer tells apart; every other kind of node is \<open>OtherNode\<close>, on which the reads
  \<^verbatim>\<open>.name\<close>, \<^verbatim>\<open>.property\<close>, \<^verbatim>\<open>.expressions\<close> and so on give \<^verbatim>\<open>undefined\<close>.

  A template literal carries the cooked text of its quasis (\<open>None\<close> where the cooked
  value is absent) and its substitution expressions. An array literal carries its elements,
  \<open>None\<close> for a hole. A member expression and an optional member expression (\<^verbatim>\<open>a?.b\<close>)
  carry their object and their property; the analyzer takes the second for a member
  expression in one place only, where it reads \<^verbatim>\<open>callee?.property?.name\<close>.
\<close>

datatype node =
    StringLiteral string
  | TemplateLiteral "string option list" "node list"
  | ArrayExpression "node option list"
  | ObjectExpression "property list"
  | Identifier string
  | BinaryExpression string node node
  | CallExpression node "node list"
  | AwaitExpression node
  | MemberExpression node node
  | OptionalMemberExpression node node
  | TSAsExpression node
  | TSTypeAssertion node
  | TSNonNullExpression node
  | TSSatisfiesExpression node
  | OtherNode
and property =
    ObjectProperty node node
  | OtherProperty

text \<open>
  A scope answers \<^verbatim>\<open>getBinding(name)\<close>. A binding has a kind and a path. Of the path the
  analyzer reads: whether it is an import specifier (then the imported name, which is absent
  for a string-named import, and the source of the enclosing import declaration), whether it
  is a variable declarator (then its initializer and the scope of the declarator), and, for
  a parameter, the node of the parent of the function that owns it (\<open>None\<close> when the function
  has no parent path). \<^verbatim>\<open>getBinding\<close> looks through the enclosing scopes, so a scope answers
  for every name visible from it. Scopes refer to one another cyclically (a declarator's
  scope contains the declarator's own binding), so a path names its scope by an identifier,
  and the tree comes with a table from identifiers to scopes.
\<close>

datatype bindingKind = KVar | KLet | KConst | KModule | KHoisted | KParam | KLocal | KUnknown

type_synonym scopeId = nat

datatype bindingPath =
    ImportSpecifier "string option" string
  | VariableDeclarator "node option" scopeId
  | ParamPath "node option"
  | OtherPath

record binding =
  kind :: bindingKind
  path :: bindingPath

type_synonym scope = "string \<Rightarrow> binding option"

text \<open>The scope \<^verbatim>\<open>{ getBinding: () => null }\<close> used for an imported file.\<close>

definition emptyScope :: scope where
  "emptyScope = (\<lambda>_. None)"

text \<open>
  What the two traversals and the export lookup see of a parsed file: the variable
  declarator paths and the call expression paths, each in visiting order and with the scope
  of the path, and the named export declarations in visiting order.

  A tree here is one that the traversal walks to its end. The three calls of
  \<^verbatim>\<open>traverse\<close> in the source stand outside any \<^verbatim>\<open>try\<close>, so where the traversal library itself
  throws on a text the parser has accepted, the source throws; the functions below say what
  the source returns when no traversal throws.
\<close>

record declaratorPath =
  declId :: node
  declInit :: "node option"
  declLine :: "nat option"
  declStart :: "nat option"
  declEnd :: "nat option"
  declScope :: scopeId

record callPath =
  callee :: node
  arguments :: "node list"
  firstArgStart :: "nat option"
  firstArgEnd :: "nat option"
  callScope :: scopeId

text \<open>A declarator of an exported variable declaration: \<^verbatim>\<open>decl.id.name\<close> and \<^verbatim>\<open>decl.init\<close>.\<close>

datatype exportedDeclaration =
    VariableDeclaration "(string option \<times> node option) list"
  | OtherDeclaration

record ast =
  declarators :: "declaratorPath list"
  calls :: "callPath list"
  exportNamed :: "exportedDeclaration option list"
  scopeOf :: "scopeId \<Rightarrow> scope"

datatype parseError = SyntaxError

type_synonym parser = "string \<Rightarrow> parseError + ast"

type_synonym importer = "string \<Rightarrow> string option"

section \<open>parseCode\<close>

text \<open>\<^verbatim>\<open>parseCode\<close> runs the parser and turns a thrown error into \<^verbatim>\<open>null\<close>.\<close>

definition parseCode :: "parser \<Rightarrow> string \<Rightarrow> ast option" where
  "parseCode parse code = (case parse code of Inl _ \<Rightarrow> None | Inr a \<Rightarrow> Some a)"

section \<open>foldConstant\<close>

text \<open>
  \<^verbatim>\<open>ResolvedValue\<close>: the value is a string, an array of strings or an array of records
  from strings to strings, or \<^verbatim>\<open>null\<close> (here \<open>None\<close>). The field \<^verbatim>\<open>value\<close> is \<open>rvalue\<close> here,
  the name being taken in Isabelle.
\<close>

datatype folded =
    VString string
  | VStringArray "string list"
  | VObjectArray "(string \<times> string) list list"

record ResolvedValue =
  rvalue :: "folded option"
  isDynamic :: bool

definition dynamic :: ResolvedValue where
  "dynamic = \<lparr>rvalue = None, isDynamic = True\<rparr>"

definition resolved :: "folded \<Rightarrow> ResolvedValue" where
  "resolved v = \<lparr>rvalue = Some v, isDynamic = False\<rparr>"

text \<open>\<^verbatim>\<open>!res.isDynamic && typeof res.value === 'string'\<close>, giving the string.\<close>

definition asString :: "ResolvedValue \<Rightarrow> string option" where
  "asString res =
     (if \<not> isDynamic res then (case rvalue res of Some (VString s) \<Rightarrow> Some s | _ \<Rightarrow> None)
      else None)"

text \<open>
  \<^verbatim>\<open>!res.isDynamic && typeof res.value === 'object' && res.value !== null && !Array.isArray(res.value)\<close>:
  the two object-typed shapes of a value are both arrays, so this is never true.
\<close>

definition isPlainObject :: "ResolvedValue \<Rightarrow> bool" where
  "isPlainObject res =
     (\<not> isDynamic res \<and>
      (case rvalue res of
         Some (VString _) \<Rightarrow> False
       | Some (VStringArray _) \<Rightarrow> False
       | Some (VObjectArray _) \<Rightarrow> False
       | None \<Rightarrow> False))"

text \<open>The loop at the head of \<^verbatim>\<open>foldConstant\<close> that strips the four wrapper nodes.\<close>

fun unwrapTS :: "node \<Rightarrow> node" where
  "unwrapTS (TSAsExpression e) = unwrapTS e"
| "unwrapTS (TSTypeAssertion e) = unwrapTS e"
| "unwrapTS (TSNonNullExpression e) = unwrapTS e"
| "unwrapTS (TSSatisfiesExpression e) = unwrapTS e"
| "unwrapTS n = n"

text \<open>The loop on a declarator's initializer, which strips three of them.\<close>

fun unwrapInit :: "node \<Rightarrow> node" where
  "unwrapInit (TSAsExpression e) = unwrapInit e"
| "unwrapInit (TSTypeAssertion e) = unwrapInit e"
| "unwrapInit (TSNonNullExpression e) = unwrapInit e"
| "unwrapInit n = n"

text \<open>\<^verbatim>\<open>quasi.value.cooked || ''\<close>\<close>

definition cookedOr :: "string option \<Rightarrow> string" where
  "cookedOr c = (case c of None \<Rightarrow> [] | Some s \<Rightarrow> s)"

text \<open>
  \<^verbatim>\<open>obj[name] = value\<close> on a record built from \<^verbatim>\<open>{}\<close>, as the list of its own properties in
  insertion order: the value of a property that is there is replaced in place, a new
  property goes to the end. The name \<^verbatim>\<open>__proto__\<close> is the accessor of \<^verbatim>\<open>Object.prototype\<close>, whose
  setter ignores a string, so that assignment stores nothing.
\<close>

definition setProperty :: "string \<Rightarrow> string \<Rightarrow> (string \<times> string) list \<Rightarrow> (string \<times> string) list" where
  "setProperty name v obj = (if name = ''__proto__'' then obj else AList.update name v obj)"

text \<open>The classification of an array literal while its elements are scanned.\<close>

datatype arrayType = TUnknown | TString | TObject | TMixed

text \<open>
  The initializers \<^verbatim>\<open>decl.init\<close> of the declarators that the \<^verbatim>\<open>ExportNamedDeclaration\<close>
  visitor matches against the imported name, in visiting order. The match is
  \<^verbatim>\<open>decl.id.name === importedName\<close>, also when both are \<^verbatim>\<open>undefined\<close>.
\<close>

fun matchingInits :: "exportedDeclaration option list \<Rightarrow> string option \<Rightarrow> node option list" where
  "matchingInits [] importedName = []"
| "matchingInits (Some (VariableDeclaration decls) # rest) importedName =
     map snd (filter (\<lambda>decl. fst decl = importedName) decls) @ matchingInits rest importedName"
| "matchingInits (_ # rest) importedName = matchingInits rest importedName"

text \<open>
  The rank by which the calls of \<open>foldConstant\<close> and of its loops descend: first the
  distance of the depth from the bound, then the function (beyond the bound \<open>foldConstant\<close>
  returns at once and ranks lowest), then the length of the list a loop still has to scan.
\<close>

definition foldRank ::
  "(parser \<times> node option \<times> scope \<times> importer option \<times> nat +
    parser \<times> node option list \<times> scope \<times> importer option \<times> nat \<times>
      arrayType \<times> string list \<times> (string \<times> string) list list) +
   parser \<times> property list \<times> scope \<times> importer option \<times> nat \<times> (string \<times> string) list +
   parser \<times> string option list \<times> node list \<times> scope \<times> importer option \<times> nat \<times> string list +
   parser \<times> node option list \<times> nat \<times> ResolvedValue
   \<Rightarrow> nat \<times> nat \<times> nat" where
  "foldRank x =
     (case x of
        Inl (Inl (p, n, sc, imp, d)) \<Rightarrow> (6 - d, if d > 5 then 0 else 5, 0)
      | Inl (Inr (p, els, sc, imp, d, r)) \<Rightarrow> (6 - d, 3, length els)
      | Inr (Inl (p, props, sc, imp, d, r)) \<Rightarrow> (6 - d, 2, length props)
      | Inr (Inr (Inl (p, qs, es, sc, imp, d, r))) \<Rightarrow> (6 - d, 3, length qs)
      | Inr (Inr (Inr (p, inits, d, r))) \<Rightarrow> (6 - d, 3, length inits))"

text \<open>
  \<^verbatim>\<open>foldConstant(node, scope, importer, depth)\<close>. The loops of the source are the functions
  \<open>foldElements\<close> (the elements of an array literal, with the classification and the two
  result arrays as loop state; a \<^verbatim>\<open>break\<close> ends the recursion), \<open>foldProperties\<close> (the
  properties of an object element), \<open>foldTemplate\<close> (quasis and substitutions of a template
  literal; \<open>None\<close> is \<^verbatim>\<open>isDynamic = true\<close>) and \<open>foldImported\<close> (the assignments to
  \<^verbatim>\<open>importedValue\<close>, one per matching export).
\<close>

function
  foldConstant :: "parser \<Rightarrow> node option \<Rightarrow> scope \<Rightarrow> importer option \<Rightarrow> nat \<Rightarrow> ResolvedValue"
and
  foldElements :: "parser \<Rightarrow> node option list \<Rightarrow> scope \<Rightarrow> importer option \<Rightarrow> nat \<Rightarrow>
     arrayType \<Rightarrow> string list \<Rightarrow> (string \<times> string) list list \<Rightarrow>
     arrayType \<times> string list \<times> (string \<times> string) list list"
and
  foldProperties :: "parser \<Rightarrow> property list \<Rightarrow> scope \<Rightarrow> importer option \<Rightarrow> nat \<Rightarrow>
     (string \<times> string) list \<Rightarrow> (string \<times> string) list"
and
  foldTemplate :: "parser \<Rightarrow> string option list \<Rightarrow> node list \<Rightarrow> scope \<Rightarrow> importer option \<Rightarrow> nat \<Rightarrow>
     string list \<Rightarrow> string list option"
and
  foldImported :: "parser \<Rightarrow> node option list \<Rightarrow> nat \<Rightarrow> ResolvedValue \<Rightarrow> ResolvedValue"
where
  "foldConstant parse node0 scope importer depth =
     (case node0 of
        None \<Rightarrow> dynamic
      | Some node1 \<Rightarrow>
          (let node = unwrapTS node1 in
           if depth > 5 then dynamic
           else
             (case node of
                StringLiteral v \<Rightarrow> resolved (VString v)
              | TemplateLiteral quasis expressions \<Rightarrow>
                  (if expressions = [] then
                     resolved (VString (case quasis of [] \<Rightarrow> [] | q # _ \<Rightarrow> cookedOr q))
                   else
                     (case foldTemplate parse quasis expressions scope importer depth [] of
                        Some resolvedParts \<Rightarrow> resolved (VString (concat resolvedParts))
                      | None \<Rightarrow> dynamic))
              | ArrayExpression elements \<Rightarrow>
                  (case foldElements parse elements scope importer depth TUnknown [] [] of
                     (TString, stringElements, _) \<Rightarrow> resolved (VStringArray stringElements)
                   | (TObject, _, objectElements) \<Rightarrow> resolved (VObjectArray objectElements)
                   | _ \<Rightarrow> dynamic)
              | Identifier name \<Rightarrow>
                  (case scope name of
                     None \<Rightarrow> dynamic
                   | Some b \<Rightarrow>
                       if kind b = KModule then
                         (case path b of
                            ImportSpecifier importedName source \<Rightarrow>
                              (case importer of
                                 None \<Rightarrow> dynamic
                               | Some imp \<Rightarrow>
                                   (case imp source of
                                      None \<Rightarrow> dynamic
                                    | Some code \<Rightarrow>
                                        if code = [] then dynamic
                                        else
                                          (case parseCode parse code of
                                             None \<Rightarrow> dynamic
                                           | Some subAst \<Rightarrow>
                                               foldImported parse
                                                 (matchingInits (exportNamed subAst) importedName)
                                                 depth dynamic)))
                          | _ \<Rightarrow> dynamic)
                       else
                         (case path b of
                            VariableDeclarator init _ \<Rightarrow>
                              foldConstant parse (map_option unwrapInit init) scope importer (depth + 1)
                          | _ \<Rightarrow> dynamic))
              | BinaryExpression operator left right \<Rightarrow>
                  (if operator = ''+'' then
                     (let l = foldConstant parse (Some left) scope importer (depth + 1);
                          r = foldConstant parse (Some right) scope importer (depth + 1)
                      in case (asString l, asString r) of
                           (Some a, Some b) \<Rightarrow> resolved (VString (a @ b))
                         | _ \<Rightarrow> dynamic)
                   else dynamic)
              | _ \<Rightarrow> dynamic)))"
| "foldElements parse [] scope importer depth ty strs objs = (ty, strs, objs)"
| "foldElements parse (None # rest) scope importer depth ty strs objs =
     foldElements parse rest scope importer depth ty strs objs"
| "foldElements parse (Some el # rest) scope importer depth ty strs objs =
     (let res = foldConstant parse (Some el) scope importer (depth + 1) in
      case asString res of
        Some s \<Rightarrow>
          (let ty1 = (if ty = TUnknown then TString else ty) in
           if ty1 = TString then foldElements parse rest scope importer depth ty1 (strs @ [s]) objs
           else (TMixed, strs, objs))
      | None \<Rightarrow>
          if isPlainObject res then foldElements parse rest scope importer depth ty strs objs
          else
            (case el of
               ObjectExpression properties \<Rightarrow>
                 (let ty1 = (if ty = TUnknown then TObject else ty) in
                  if ty1 = TObject then
                    foldElements parse rest scope importer depth ty1 strs
                      (objs @ [foldProperties parse properties scope importer depth []])
                  else (TMixed, strs, objs))
             | _ \<Rightarrow> (TMixed, strs, objs)))"
| "foldProperties parse [] scope importer depth obj = obj"
| "foldProperties parse (prop # rest) scope importer depth obj =
     (case prop of
        ObjectProperty (Identifier keyName) v \<Rightarrow>
          (case asString (foldConstant parse (Some v) scope importer (depth + 1)) of
             Some s \<Rightarrow> foldProperties parse rest scope importer depth (setProperty keyName s obj)
           | None \<Rightarrow> foldProperties parse rest scope importer depth obj)
      | _ \<Rightarrow> foldProperties parse rest scope importer depth obj)"
| "foldTemplate parse [] expressions scope importer depth parts = Some parts"
| "foldTemplate parse (quasi # quasis) expressions scope importer depth parts =
     (case expressions of
        [] \<Rightarrow> foldTemplate parse quasis [] scope importer depth (parts @ [cookedOr quasi])
      | expr # exprs \<Rightarrow>
          (case asString (foldConstant parse (Some expr) scope importer (depth + 1)) of
             Some s \<Rightarrow>
               foldTemplate parse quasis exprs scope importer depth (parts @ [cookedOr quasi, s])
           | None \<Rightarrow> None))"
| "foldImported parse [] depth importedValue = importedValue"
| "foldImported parse (init # rest) depth importedValue =
     foldImported parse rest depth (foldConstant parse init emptyScope None (depth + 1))"
  by pat_completeness auto

termination
  by (relation "inv_image (less_than <*lex*> less_than <*lex*> less_than) foldRank")
     (auto simp: foldRank_def)

declare foldConstant.simps [simp del]

section \<open>resolveNamespaceFromCall\<close>

text \<open>Truthiness of a value that is a string, \<^verbatim>\<open>null\<close> or \<^verbatim>\<open>undefined\<close>.\<close>

definition truthy :: "string option \<Rightarrow> bool" where
  "truthy v = (case v of None \<Rightarrow> False | Some s \<Rightarrow> s \<noteq> [])"

text \<open>A number inside a template string: its decimal digits.\<close>

fun showNat :: "nat \<Rightarrow> string" where
  "showNat n =
     (if n < 10 then [''0123456789'' ! n]
      else showNat (n div 10) @ [''0123456789'' ! (n mod 10)])"

declare showNat.simps [simp del]

text \<open>The result of \<^verbatim>\<open>resolveNamespaceFromCall\<close>; \<open>None\<close> is \<^verbatim>\<open>null\<close> or an absent field.\<close>

record namespaceResult =
  nsNamespace :: "string option"
  nsIsDynamic :: bool
  nsDynamicPlaceholder :: "string option"

text \<open>
  The second loop of \<^verbatim>\<open>resolveNamespaceFromCall\<close> over a template literal: as
  \<open>foldTemplate\<close>, but every substitution is folded from depth 0.
\<close>

fun resolveTemplateParts ::
  "parser \<Rightarrow> string option list \<Rightarrow> node list \<Rightarrow> scope \<Rightarrow> importer option \<Rightarrow>
   string list \<Rightarrow> string list option" where
  "resolveTemplateParts parse [] expressions scope importer parts = Some parts"
| "resolveTemplateParts parse (quasi # quasis) expressions scope importer parts =
     (case expressions of
        [] \<Rightarrow> resolveTemplateParts parse quasis [] scope importer (parts @ [cookedOr quasi])
      | expr # exprs \<Rightarrow>
          (case asString (foldConstant parse (Some expr) scope importer 0) of
             Some s \<Rightarrow>
               resolveTemplateParts parse quasis exprs scope importer (parts @ [cookedOr quasi, s])
           | None \<Rightarrow> None))"

text \<open>
  \<^verbatim>\<open>resolveNamespaceFromCall(callExpr, scope, importer, fileName, line)\<close>. Of the call
  expression only \<^verbatim>\<open>callExpr.arguments\<close> is read, which is what the function takes here.
\<close>

definition resolveNamespaceFromCall ::
  "parser \<Rightarrow> node list \<Rightarrow> scope \<Rightarrow> importer option \<Rightarrow> string \<Rightarrow> nat \<Rightarrow> namespaceResult" where
  "resolveNamespaceFromCall parse args scope importer fileName line =
     (case args of
        [] \<Rightarrow>
          \<lparr>nsNamespace = None, nsIsDynamic = True,
           nsDynamicPlaceholder = Some (''<no-namespace:'' @ fileName @ '':L'' @ showNat line @ ''>'')\<rparr>
      | firstArg # _ \<Rightarrow>
          (let dyn = \<lparr>nsNamespace = None, nsIsDynamic = True,
                      nsDynamicPlaceholder = Some (''<dynamic:'' @ fileName @ '':L'' @ showNat line @ ''>'')\<rparr>
           in
           case asString (foldConstant parse (Some firstArg) scope importer 0) of
             Some s \<Rightarrow> \<lparr>nsNamespace = Some s, nsIsDynamic = False, nsDynamicPlaceholder = None\<rparr>
           | None \<Rightarrow>
               (case firstArg of
                  TemplateLiteral quasis expressions \<Rightarrow>
                    (if length expressions > 0 then
                       (case resolveTemplateParts parse quasis expressions scope importer [] of
                          Some resolvedParts \<Rightarrow>
                            \<lparr>nsNamespace = Some (concat resolvedParts), nsIsDynamic = False,
                             nsDynamicPlaceholder = None\<rparr>
                        | None \<Rightarrow> dyn)
                     else dyn)
                | _ \<Rightarrow> dyn)))"

section \<open>analyzeUseTranslations\<close>

text \<open>
  \<^verbatim>\<open>UseTranslationsAnalysis\<close>, with \<^verbatim>\<open>location\<close> flattened into its three numbers. The
  fields carry a prefix, their names being shared with the other records.
\<close>

record UseTranslationsAnalysis =
  utVariableName :: string
  utNamespace :: "string option"
  utIsDynamic :: bool
  utDynamicPlaceholder :: "string option"
  utStart :: nat
  utEnd :: nat
  utLine :: nat

text \<open>\<^verbatim>\<open>x || 0\<close> for a number that may be absent.\<close>

definition orZero :: "nat option \<Rightarrow> nat" where
  "orZero x = (case x of None \<Rightarrow> 0 | Some n \<Rightarrow> n)"

text \<open>
  The name of the called function as the declarator visitor takes it: the callee itself when
  it is an identifier, the property of a member expression when that is an identifier.
\<close>

definition functionNameOf :: "node \<Rightarrow> string option" where
  "functionNameOf c =
     (case c of
        Identifier n \<Rightarrow> Some n
      | MemberExpression _ (Identifier n) \<Rightarrow> Some n
      | _ \<Rightarrow> None)"

text \<open>The body of the \<^verbatim>\<open>VariableDeclarator\<close> visitor: what it pushes onto \<^verbatim>\<open>results\<close>.\<close>

definition visitVariableDeclarator ::
  "parser \<Rightarrow> (scopeId \<Rightarrow> scope) \<Rightarrow> importer option \<Rightarrow> string \<Rightarrow> declaratorPath \<Rightarrow>
   UseTranslationsAnalysis list" where
  "visitVariableDeclarator parse scopes importer fileName nodePath =
     (case declId nodePath of
        Identifier variableName \<Rightarrow>
          (let callExpr =
                 (case declInit nodePath of
                    Some (AwaitExpression argument) \<Rightarrow> Some argument
                  | init \<Rightarrow> init)
           in
           case callExpr of
             Some (CallExpression c args) \<Rightarrow>
               (if functionNameOf c \<noteq> Some ''useTranslations''
                   \<and> functionNameOf c \<noteq> Some ''getTranslations'' then []
                else
                  (let line = orZero (declLine nodePath);
                       res = resolveNamespaceFromCall parse args (scopes (declScope nodePath))
                               importer fileName line
                   in [\<lparr>utVariableName = variableName,
                        utNamespace = nsNamespace res,
                        utIsDynamic = nsIsDynamic res,
                        utDynamicPlaceholder = nsDynamicPlaceholder res,
                        utStart = orZero (declStart nodePath),
                        utEnd = orZero (declEnd nodePath),
                        utLine = line\<rparr>]))
           | _ \<Rightarrow> [])
      | _ \<Rightarrow> [])"

text \<open>
  \<^verbatim>\<open>analyzeUseTranslations(code, filePath, importer)\<close>. The parser and \<^verbatim>\<open>path.basename\<close>
  are the two library functions it calls; the traversal calls the visitor on every variable
  declarator path in visiting order.
\<close>

definition analyzeUseTranslations ::
  "parser \<Rightarrow> (string \<Rightarrow> string) \<Rightarrow> string \<Rightarrow> string option \<Rightarrow> importer option \<Rightarrow>
   UseTranslationsAnalysis list" where
  "analyzeUseTranslations parse basename code filePath importer =
     (case parseCode parse code of
        None \<Rightarrow> []
      | Some tree \<Rightarrow>
          (let fileName = (case filePath of
                             None \<Rightarrow> ''unknown''
                           | Some fp \<Rightarrow> if fp = [] then ''unknown'' else basename fp)
           in concat (map (visitVariableDeclarator parse (scopeOf tree) importer fileName)
                          (declarators tree))))"

section \<open>analyzeTranslationUsages\<close>

text \<open>\<^verbatim>\<open>AnalyzedKey\<close>; its field \<^verbatim>\<open>end\<close> is \<open>endOffset\<close> here.\<close>

record AnalyzedKey =
  key :: string
  start :: nat
  endOffset :: nat
  quoted :: bool
  namespace :: "string option"
  variableName :: string

text \<open>\<^verbatim>\<open>node.name\<close>, which only an identifier has.\<close>

definition nodeName :: "node \<Rightarrow> string option" where
  "nodeName n = (case n of Identifier x \<Rightarrow> Some x | _ \<Rightarrow> None)"

text \<open>\<^verbatim>\<open>callExpr.callee?.name || callExpr.callee?.property?.name\<close>\<close>

definition fnNameOf :: "node \<Rightarrow> string option" where
  "fnNameOf c =
     (if truthy (nodeName c) then nodeName c
      else (case c of
              MemberExpression _ prop \<Rightarrow> nodeName prop
            | OptionalMemberExpression _ prop \<Rightarrow> nodeName prop
            | _ \<Rightarrow> None))"

text \<open>
  Scope-based resolution of the namespace of \<^verbatim>\<open>variableName\<close>: the value of the local
  \<^verbatim>\<open>namespace\<close> after the block that starts at \<^verbatim>\<open>getBinding(variableName)\<close>; \<open>None\<close> is
  \<^verbatim>\<open>undefined\<close>. Only a variable declarator path has a node with an \<^verbatim>\<open>init\<close>.
\<close>

definition scopeNamespace ::
  "parser \<Rightarrow> (scopeId \<Rightarrow> scope) \<Rightarrow> importer option \<Rightarrow> scope \<Rightarrow> string \<Rightarrow> string option" where
  "scopeNamespace parse scopes importer scope varName =
     (case scope varName of
        None \<Rightarrow> None
      | Some b \<Rightarrow>
          (case path b of
             VariableDeclarator (Some init) bindingScope \<Rightarrow>
               (let callExpr = (case init of AwaitExpression argument \<Rightarrow> argument | _ \<Rightarrow> init)
                in case callExpr of
                     CallExpression c args \<Rightarrow>
                       (if fnNameOf c = Some ''useTranslations'' \<or> fnNameOf c = Some ''getTranslations''
                        then
                          (let res = resolveNamespaceFromCall parse args (scopes bindingScope)
                                       importer ''unknown'' 0
                           in if truthy (nsNamespace res) then nsNamespace res else None)
                        else None)
                   | _ \<Rightarrow> None)
           | _ \<Rightarrow> None))"

text \<open>
  The test both iteration branches make on the binding of a name: it is a parameter, the
  parent of its function is a call expression whose callee is a member expression with
  property \<^verbatim>\<open>map\<close> on an identifier. The result is the fold of that identifier, from the
  scope of the key lookup.
\<close>

definition mapArrayOf ::
  "parser \<Rightarrow> importer option \<Rightarrow> scope \<Rightarrow> string \<Rightarrow> ResolvedValue option" where
  "mapArrayOf parse importer scope paramName =
     (case scope paramName of
        None \<Rightarrow> None
      | Some b \<Rightarrow>
          if kind b = KParam then
            (case path b of
               ParamPath (Some (CallExpression (MemberExpression obj prop) _)) \<Rightarrow>
                 (case obj of
                    Identifier _ \<Rightarrow>
                      if prop = Identifier ''map''
                      then Some (foldConstant parse (Some obj) scope importer 0)
                      else None
                  | _ \<Rightarrow> None)
             | _ \<Rightarrow> None)
          else None)"

text \<open>
  \<^verbatim>\<open>keysToEmit\<close> after the three extraction branches. A record of an object array is the
  list of its own properties; \<^verbatim>\<open>item[propertyName]\<close> is truthy when the property is there
  with a non-empty string. Where the record has no own property of that name and the name
  is one of a member of \<^verbatim>\<open>Object.prototype\<close> (\<^verbatim>\<open>constructor\<close>, \<^verbatim>\<open>toString\<close> and the like), the
  source reads that member, which is truthy and not a string, and pushes it; a list of
  strings has no place for it, and the function below gives no key there.
\<close>

definition keysToEmit :: "parser \<Rightarrow> importer option \<Rightarrow> scope \<Rightarrow> node \<Rightarrow> string list" where
  "keysToEmit parse importer scope firstArg =
     (case asString (foldConstant parse (Some firstArg) scope importer 0) of
        Some s \<Rightarrow> [s]
      | None \<Rightarrow>
          (case firstArg of
             Identifier argName \<Rightarrow>
               (case mapArrayOf parse importer scope argName of
                  Some arrayRes \<Rightarrow>
                    (if \<not> isDynamic arrayRes then
                       (case rvalue arrayRes of
                          Some (VStringArray (v # vs)) \<Rightarrow> v # vs
                        | _ \<Rightarrow> [])
                     else [])
                | None \<Rightarrow> [])
           | MemberExpression obj (Identifier propertyName) \<Rightarrow>
               (case obj of
                  Identifier objectName \<Rightarrow>
                    (if objectName \<noteq> [] then
                       (case mapArrayOf parse importer scope objectName of
                          Some arrayRes \<Rightarrow>
                            (if \<not> isDynamic arrayRes then
                               (case rvalue arrayRes of
                                  Some (VObjectArray (v # vs)) \<Rightarrow>
                                    List.map_filter
                                      (\<lambda>item. if truthy (map_of item propertyName)
                                              then map_of item propertyName else None)
                                      (v # vs)
                                | _ \<Rightarrow> [])
                             else [])
                        | None \<Rightarrow> [])
                     else [])
                | _ \<Rightarrow> [])
           | _ \<Rightarrow> []))"

text \<open>
  The namespace the visitor settles on for \<^verbatim>\<open>variableName\<close>: scope-based resolution
  first, then \<^verbatim>\<open>varNamespaceMap\<close> when that gave nothing truthy and the map has the name.
\<close>

definition namespaceOf ::
  "parser \<Rightarrow> (scopeId \<Rightarrow> scope) \<Rightarrow> (string \<rightharpoonup> string) \<Rightarrow> importer option \<Rightarrow> scope \<Rightarrow>
   string \<Rightarrow> string option" where
  "namespaceOf parse scopes varNamespaceMap importer scope varName =
     (let ns0 = scopeNamespace parse scopes importer scope varName
      in if \<not> truthy ns0 \<and> varNamespaceMap varName \<noteq> None then varNamespaceMap varName else ns0)"

text \<open>\<^verbatim>\<open>firstArg.type === 'StringLiteral' || firstArg.type === 'TemplateLiteral'\<close>\<close>

definition isLiteralArg :: "node \<Rightarrow> bool" where
  "isLiteralArg firstArg =
     (case firstArg of StringLiteral _ \<Rightarrow> True | TemplateLiteral _ _ \<Rightarrow> True | _ \<Rightarrow> False)"

text \<open>The body of the \<^verbatim>\<open>CallExpression\<close> visitor: what it pushes onto \<^verbatim>\<open>results\<close>.\<close>

definition visitCallExpression ::
  "parser \<Rightarrow> (scopeId \<Rightarrow> scope) \<Rightarrow> (string \<rightharpoonup> string) \<Rightarrow> importer option \<Rightarrow> callPath \<Rightarrow>
   AnalyzedKey list" where
  "visitCallExpression parse scopes varNamespaceMap importer nodePath =
     (let (varName, methodName) =
            (case callee nodePath of
               Identifier n \<Rightarrow> (Some n, None)
             | MemberExpression (Identifier n) prop \<Rightarrow> (Some n, nodeName prop)
             | _ \<Rightarrow> (None, None))
      in
      if truthy methodName \<and> methodName \<notin> {Some ''rich'', Some ''markup'', Some ''raw''} then []
      else if \<not> truthy varName then []
      else
        (let v = the varName;
             scope = scopes (callScope nodePath);
             ns = namespaceOf parse scopes varNamespaceMap importer scope v
         in
         if \<not> truthy ns \<and> varNamespaceMap v = None then []
         else
           (case arguments nodePath of
              [] \<Rightarrow> []
            | firstArg # _ \<Rightarrow>
                map (\<lambda>k.
                       \<lparr>key = (if truthy ns then the ns @ ''.'' @ k else k),
                        start = orZero (firstArgStart nodePath),
                        endOffset = orZero (firstArgEnd nodePath),
                        quoted = isLiteralArg firstArg,
                        namespace = ns,
                        variableName = v\<rparr>)
                    (keysToEmit parse importer scope firstArg))))"

text \<open>
  \<^verbatim>\<open>analyzeTranslationUsages(code, varNamespaceMap, importer)\<close>: the traversal calls the
  visitor on every call expression path in visiting order.
\<close>

definition analyzeTranslationUsages ::
  "parser \<Rightarrow> string \<Rightarrow> (string \<rightharpoonup> string) \<Rightarrow> importer option \<Rightarrow> AnalyzedKey list" where
  "analyzeTranslationUsages parse code varNamespaceMap importer =
     (case parseCode parse code of
        None \<Rightarrow> []
      | Some tree \<Rightarrow>
          concat (map (visitCallExpression parse (scopeOf tree) varNamespaceMap importer)
                      (calls tree)))"

section \<open>Predicates and example trees used in the statements\<close>

text \<open>The invariant of a \<^verbatim>\<open>ResolvedValue\<close>: it is dynamic exactly when it has no value.\<close>

definition wellFormed :: "ResolvedValue \<Rightarrow> bool" where
  "wellFormed r = (isDynamic r = (rvalue r = None))"

text \<open>
  \<open>aliasChain scope k node\<close>: \<open>node\<close> heads a chain of at least \<open>k\<close> identifier aliases, that
  is, it is (a wrapper around) an identifier that \<open>scope\<close> binds to a variable declarator, not
  an import, whose initializer heads a chain of at least \<open>k - 1\<close> aliases.
\<close>

fun aliasChain :: "scope \<Rightarrow> nat \<Rightarrow> node \<Rightarrow> bool" where
  "aliasChain scope 0 node = True"
| "aliasChain scope (Suc k) node =
     (case unwrapTS node of
        Identifier x \<Rightarrow>
          (case scope x of
             Some b \<Rightarrow>
               kind b \<noteq> KModule \<and>
               (case path b of
                  VariableDeclarator (Some init) _ \<Rightarrow> aliasChain scope k init
                | _ \<Rightarrow> False)
           | None \<Rightarrow> False)
      | _ \<Rightarrow> False)"

text \<open>A parser that rejects every text.\<close>

definition rejectAll :: parser where
  "rejectAll = (\<lambda>_. Inl SyntaxError)"

text \<open>The binding of \<^verbatim>\<open>const x = init\<close>, declared in the scope \<open>sid\<close>.\<close>

definition constDeclarator :: "node \<Rightarrow> scopeId \<Rightarrow> binding" where
  "constDeclarator init sid = \<lparr>kind = KConst, path = VariableDeclarator (Some init) sid\<rparr>"

text \<open>
  The scope of
  \<^verbatim>\<open>const x1 = 'a'; const x2 = x1; const x3 = x2; const x4 = x3; const x5 = x4; const x6 = x5\<close>.
\<close>

definition chainScope :: scope where
  "chainScope = map_of
     [(''x1'', constDeclarator (StringLiteral ''a'') 0),
      (''x2'', constDeclarator (Identifier ''x1'') 0),
      (''x3'', constDeclarator (Identifier ''x2'') 0),
      (''x4'', constDeclarator (Identifier ''x3'') 0),
      (''x5'', constDeclarator (Identifier ''x4'') 0),
      (''x6'', constDeclarator (Identifier ''x5'') 0)]"

text \<open>The scope of \<^verbatim>\<open>const a = 'scope'; const b = '.sub'; const t = useTranslations(a + b)\<close>.\<close>

definition concatScope :: scope where
  "concatScope = map_of
     [(''a'', constDeclarator (StringLiteral ''scope'') 0),
      (''b'', constDeclarator (StringLiteral ''.sub'') 0)]"

text \<open>
  The tree of \<^verbatim>\<open>const t = useTranslations('auth'); t('login.title')\<close>: one scope, the
  program's, which binds \<^verbatim>\<open>t\<close>; the traversal visits the call of \<^verbatim>\<open>useTranslations\<close>, then
  the call of \<^verbatim>\<open>t\<close>.
\<close>

definition loginScope :: scope where
  "loginScope = map_of
     [(''t'', constDeclarator
                (CallExpression (Identifier ''useTranslations'') [StringLiteral ''auth'']) 0)]"

definition loginTree :: ast where
  "loginTree =
     \<lparr>declarators =
        [\<lparr>declId = Identifier ''t'',
          declInit = Some (CallExpression (Identifier ''useTranslations'') [StringLiteral ''auth'']),
          declLine = Some 1, declStart = Some 6, declEnd = Some 33, declScope = 0\<rparr>],
      calls =
        [\<lparr>callee = Identifier ''useTranslations'', arguments = [StringLiteral ''auth''],
          firstArgStart = Some 26, firstArgEnd = Some 32, callScope = 0\<rparr>,
         \<lparr>callee = Identifier ''t'', arguments = [StringLiteral ''login.title''],
          firstArgStart = Some 37, firstArgEnd = Some 50, callScope = 0\<rparr>],
      exportNamed = [],
      scopeOf = (\<lambda>_. loginScope)\<rparr>"

text \<open>
  A file that imports \<^verbatim>\<open>CATEGORIES\<close> from \<^verbatim>\<open>./constants\<close>, the text of that module, its
  tree, an import resolver that knows the module and a parser that knows its text.
\<close>

definition importScope :: scope where
  "importScope = map_of
     [(''CATEGORIES'',
       \<lparr>kind = KModule, path = ImportSpecifier (Some ''CATEGORIES'') ''./constants''\<rparr>)]"

definition constantsText :: string where
  "constantsText = ''export const CATEGORIES = ['electronics', 'books'];''"

definition constantsImporter :: importer where
  "constantsImporter = (\<lambda>p. if p = ''./constants'' then Some constantsText else None)"

definition constantsTree :: ast where
  "constantsTree =
     \<lparr>declarators =
        [\<lparr>declId = Identifier ''CATEGORIES'',
          declInit = Some (ArrayExpression
                            [Some (StringLiteral ''electronics''), Some (StringLiteral ''books'')]),
          declLine = Some 1, declStart = Some 13, declEnd = Some 50, declScope = 0\<rparr>],
      calls = [],
      exportNamed =
        [Some (VariableDeclaration
           [(Some ''CATEGORIES'',
             Some (ArrayExpression
                     [Some (StringLiteral ''electronics''), Some (StringLiteral ''books'')]))])],
      scopeOf = (\<lambda>_. emptyScope)\<rparr>"

definition constantsParser :: parser where
  "constantsParser = (\<lambda>code. if code = constantsText then Inr constantsTree else Inl SyntaxError)"

text \<open>
  A module \<^verbatim>\<open>./m\<close> with the text \<^verbatim>\<open>export const [a] = 'zzz';\<close>, whose one exported declarator
  is a pattern and so has no \<^verbatim>\<open>id.name\<close>, and two files that import from it: one with
  \<^verbatim>\<open>import {"weird" as X} from './m'\<close>, where the imported name is a string literal and so has
  no \<^verbatim>\<open>name\<close> either, one with \<^verbatim>\<open>import {weird as X} from './m'\<close>.
\<close>

definition stringImportScope :: scope where
  "stringImportScope = map_of
     [(''X'', \<lparr>kind = KModule, path = ImportSpecifier None ''./m''\<rparr>)]"

definition namedImportScope :: scope where
  "namedImportScope = map_of
     [(''X'', \<lparr>kind = KModule, path = ImportSpecifier (Some ''weird'') ''./m''\<rparr>)]"

definition patternText :: string where
  "patternText = ''export const [a] = 'zzz';''"

definition patternTree :: ast where
  "patternTree =
     \<lparr>declarators =
        [\<lparr>declId = OtherNode, declInit = Some (StringLiteral ''zzz''),
          declLine = Some 1, declStart = Some 13, declEnd = Some 24, declScope = 0\<rparr>],
      calls = [],
      exportNamed = [Some (VariableDeclaration [(None, Some (StringLiteral ''zzz''))])],
      scopeOf = (\<lambda>_. map_of [(''a'', constDeclarator (StringLiteral ''zzz'') 0)])\<rparr>"

definition patternImporter :: importer where
  "patternImporter = (\<lambda>p. if p = ''./m'' then Some patternText else None)"

definition patternParser :: parser where
  "patternParser = (\<lambda>code. if code = patternText then Inr patternTree else Inl SyntaxError)"

text \<open>
  Two functions that each declare their own \<^verbatim>\<open>t\<close>:
  \<^verbatim>\<open>function A() { const t = useTranslations(NS); t('key1'); } function B() { const t = useTranslations('ns2'); t('key2'); }\<close>.
  Scope 0 is the program's, scope 1 the scope of \<^verbatim>\<open>A\<close>, scope 2 the scope of \<^verbatim>\<open>B\<close>; an
  inner scope also answers for the names of the scopes around it. \<open>twoFunctionsTree\<close> has
  \<^verbatim>\<open>'ns1'\<close> for \<^verbatim>\<open>NS\<close>.
\<close>

definition accessorCall :: "node \<Rightarrow> node" where
  "accessorCall arg = CallExpression (Identifier ''useTranslations'') [arg]"

definition functionBinding :: binding where
  "functionBinding = \<lparr>kind = KHoisted, path = OtherPath\<rparr>"

definition twoFunctionsScopes :: "string \<Rightarrow> scopeId \<Rightarrow> scope" where
  "twoFunctionsScopes nsA sid =
     (if sid = 1 then
        map_of [(''t'', constDeclarator (accessorCall (StringLiteral nsA)) 1),
                (''A'', functionBinding), (''B'', functionBinding)]
      else if sid = 2 then
        map_of [(''t'', constDeclarator (accessorCall (StringLiteral ''ns2'')) 2),
                (''A'', functionBinding), (''B'', functionBinding)]
      else map_of [(''A'', functionBinding), (''B'', functionBinding)])"

definition twoFunctionsTree :: ast where
  "twoFunctionsTree =
     \<lparr>declarators =
        [\<lparr>declId = Identifier ''t'', declInit = Some (accessorCall (StringLiteral ''ns1'')),
          declLine = Some 1, declStart = Some 21, declEnd = Some 47, declScope = 1\<rparr>,
         \<lparr>declId = Identifier ''t'', declInit = Some (accessorCall (StringLiteral ''ns2'')),
          declLine = Some 1, declStart = Some 83, declEnd = Some 109, declScope = 2\<rparr>],
      calls =
        [\<lparr>callee = Identifier ''useTranslations'', arguments = [StringLiteral ''ns1''],
          firstArgStart = Some 41, firstArgEnd = Some 46, callScope = 1\<rparr>,
         \<lparr>callee = Identifier ''t'', arguments = [StringLiteral ''key1''],
          firstArgStart = Some 51, firstArgEnd = Some 57, callScope = 1\<rparr>,
         \<lparr>callee = Identifier ''useTranslations'', arguments = [StringLiteral ''ns2''],
          firstArgStart = Some 103, firstArgEnd = Some 108, callScope = 2\<rparr>,
         \<lparr>callee = Identifier ''t'', arguments = [StringLiteral ''key2''],
          firstArgStart = Some 113, firstArgEnd = Some 119, callScope = 2\<rparr>],
      exportNamed = [],
      scopeOf = twoFunctionsScopes ''ns1''\<rparr>"

text \<open>
  A lookup below a shadowing declaration:
  \<^verbatim>\<open>const ns = 'global'; function A() { const t = useTranslations(ns); function inner() { const ns = 'local'; t('k'); } }\<close>.
  Scope 1 is the scope of \<^verbatim>\<open>A\<close>, where \<^verbatim>\<open>t\<close> is declared, scope 2 the scope of \<^verbatim>\<open>inner\<close>,
  where \<^verbatim>\<open>t\<close> is called.
\<close>

definition shadowScopes :: "scopeId \<Rightarrow> scope" where
  "shadowScopes sid =
     (if sid = 1 then
        map_of [(''t'', constDeclarator (accessorCall (Identifier ''ns'')) 1),
                (''inner'', functionBinding),
                (''ns'', constDeclarator (StringLiteral ''global'') 0),
                (''A'', functionBinding)]
      else if sid = 2 then
        map_of [(''ns'', constDeclarator (StringLiteral ''local'') 2),
                (''t'', constDeclarator (accessorCall (Identifier ''ns'')) 1),
                (''inner'', functionBinding),
                (''A'', functionBinding)]
      else map_of [(''ns'', constDeclarator (StringLiteral ''global'') 0),
                   (''A'', functionBinding)])"

definition shadowLookup :: callPath where
  "shadowLookup =
     \<lparr>callee = Identifier ''t'', arguments = [StringLiteral ''k''],
      firstArgStart = Some 108, firstArgEnd = Some 111, callScope = 2\<rparr>"

text \<open>
  \<^verbatim>\<open>const ITEMS = ['a','b']; ITEMS.map(i => t(i))\<close>: scope 1 is the scope of the callback,
  whose parameter \<^verbatim>\<open>i\<close> belongs to a function whose parent is the call of \<^verbatim>\<open>ITEMS.map\<close>. The
  callback, a function expression, is a node of no kind the analyzer looks into.
\<close>

definition itemsArray :: node where
  "itemsArray = ArrayExpression [Some (StringLiteral ''a''), Some (StringLiteral ''b'')]"

definition mapCallOn :: "node \<Rightarrow> node" where
  "mapCallOn obj = CallExpression (MemberExpression obj (Identifier ''map'')) [OtherNode]"

definition paramOf :: "node \<Rightarrow> binding" where
  "paramOf parentCall = \<lparr>kind = KParam, path = ParamPath (Some parentCall)\<rparr>"

definition itemsScopes :: "scopeId \<Rightarrow> scope" where
  "itemsScopes sid =
     (if sid = 1 then
        map_of [(''i'', paramOf (mapCallOn (Identifier ''ITEMS''))),
                (''ITEMS'', constDeclarator itemsArray 0)]
      else map_of [(''ITEMS'', constDeclarator itemsArray 0)])"

definition itemsLookup :: callPath where
  "itemsLookup =
     \<lparr>callee = Identifier ''t'', arguments = [Identifier ''i''],
      firstArgStart = Some 42, firstArgEnd = Some 43, callScope = 1\<rparr>"

definition itemsTree :: ast where
  "itemsTree =
     \<lparr>declarators =
        [\<lparr>declId = Identifier ''ITEMS'', declInit = Some itemsArray,
          declLine = Some 1, declStart = Some 6, declEnd = Some 23, declScope = 0\<rparr>],
      calls =
        [\<lparr>callee = MemberExpression (Identifier ''ITEMS'') (Identifier ''map''),
          arguments = [OtherNode],
          firstArgStart = Some 35, firstArgEnd = Some 44, callScope = 0\<rparr>,
         itemsLookup],
      exportNamed = [],
      scopeOf = itemsScopes\<rparr>"

text \<open>\<^verbatim>\<open>['a','b'].map(i => t(i))\<close>: the same callback on the array literal itself.\<close>

definition directMapScopes :: "scopeId \<Rightarrow> scope" where
  "directMapScopes sid =
     (if sid = 1 then map_of [(''i'', paramOf (mapCallOn itemsArray))] else Map.empty)"

definition directMapTree :: ast where
  "directMapTree =
     \<lparr>declarators = [],
      calls =
        [\<lparr>callee = MemberExpression itemsArray (Identifier ''map''),
          arguments = [OtherNode],
          firstArgStart = Some 14, firstArgEnd = Some 23, callScope = 0\<rparr>,
         \<lparr>callee = Identifier ''t'', arguments = [Identifier ''i''],
          firstArgStart = Some 21, firstArgEnd = Some 22, callScope = 1\<rparr>],
      exportNamed = [],
      scopeOf = directMapScopes\<rparr>"

text \<open>
  \<open>emptyNamespaceTree\<close> is the tree of the two functions with the empty string for
  \<^verbatim>\<open>NS\<close>, and \<open>singleEmptyTree\<close> the tree of \<^verbatim>\<open>const t = useTranslations(""); t('k')\<close>.
\<close>

definition emptyNamespaceTree :: ast where
  "emptyNamespaceTree =
     \<lparr>declarators =
        [\<lparr>declId = Identifier ''t'', declInit = Some (accessorCall (StringLiteral [])),
          declLine = Some 1, declStart = Some 21, declEnd = Some 44, declScope = 1\<rparr>,
         \<lparr>declId = Identifier ''t'', declInit = Some (accessorCall (StringLiteral ''ns2'')),
          declLine = Some 1, declStart = Some 80, declEnd = Some 106, declScope = 2\<rparr>],
      calls =
        [\<lparr>callee = Identifier ''useTranslations'', arguments = [StringLiteral []],
          firstArgStart = Some 41, firstArgEnd = Some 43, callScope = 1\<rparr>,
         \<lparr>callee = Identifier ''t'', arguments = [StringLiteral ''key1''],
          firstArgStart = Some 48, firstArgEnd = Some 54, callScope = 1\<rparr>,
         \<lparr>callee = Identifier ''useTranslations'', arguments = [StringLiteral ''ns2''],
          firstArgStart = Some 100, firstArgEnd = Some 105, callScope = 2\<rparr>,
         \<lparr>callee = Identifier ''t'', arguments = [StringLiteral ''key2''],
          firstArgStart = Some 110, firstArgEnd = Some 116, callScope = 2\<rparr>],
      exportNamed = [],
      scopeOf = twoFunctionsScopes []\<rparr>"

definition singleEmptyTree :: ast where
  "singleEmptyTree =
     \<lparr>declarators =
        [\<lparr>declId = Identifier ''t'', declInit = Some (accessorCall (StringLiteral [])),
          declLine = Some 1, declStart = Some 6, declEnd = Some 29, declScope = 0\<rparr>],
      calls =
        [\<lparr>callee = Identifier ''useTranslations'', arguments = [StringLiteral []],
          firstArgStart = Some 26, firstArgEnd = Some 28, callScope = 0\<rparr>,
         \<lparr>callee = Identifier ''t'', arguments = [StringLiteral ''k''],
          firstArgStart = Some 33, firstArgEnd = Some 36, callScope = 0\<rparr>],
      exportNamed = [],
      scopeOf = (\<lambda>_. map_of [(''t'', constDeclarator (accessorCall (StringLiteral [])) 0)])\<rparr>"

text \<open>
  From \<^verbatim>\<open>detectKeys\<close> of the framework (\<^verbatim>\<open>frameworks/next-intl.ts\<close>): the map it builds from
  the accessors found (\<^verbatim>\<open>if (analysis.namespace) varNamespaceMap.set(...)\<close>, later entries
  overwriting earlier ones) and the value of \<^verbatim>\<open>analyzedKeys\<close>, which it returns field by field.
\<close>

definition varNamespaceMapOf :: "UseTranslationsAnalysis list \<Rightarrow> (string \<rightharpoonup> string)" where
  "varNamespaceMapOf translationsAnalysis =
     foldl (\<lambda>m analysis.
              if truthy (utNamespace analysis)
              then m(utVariableName analysis \<mapsto> the (utNamespace analysis))
              else m)
           Map.empty translationsAnalysis"

definition detectKeysAnalyzed ::
  "parser \<Rightarrow> (string \<Rightarrow> string) \<Rightarrow> string \<Rightarrow> string \<Rightarrow> importer option \<Rightarrow> AnalyzedKey list" where
  "detectKeysAnalyzed parse basename text filePath importer =
     (let translationsAnalysis = analyzeUseTranslations parse basename text (Some filePath) importer;
          varNamespaceMap = varNamespaceMapOf translationsAnalysis
      in analyzeTranslationUsages parse text varNamespaceMap importer)"

section \<open>Basic facts about foldConstant\<close>

lemma asString_resolved [simp]: "asString (resolved (VString s)) = Some s"
  by (simp add: asString_def resolved_def)

lemma asString_dynamic [simp]: "asString dynamic = None"
  by (simp add: asString_def dynamic_def)

lemma asString_array [simp]:
  "asString (resolved (VStringArray xs)) = None" "asString (resolved (VObjectArray os)) = None"
  by (simp_all add: asString_def resolved_def)

lemma isPlainObject_False [simp]: "\<not> isPlainObject r"
  by (simp add: isPlainObject_def split: option.split folded.split)

lemma unwrapTS_unwrapInit [simp]: "unwrapTS (unwrapInit n) = unwrapTS n"
  by (induction n rule: unwrapInit.induct) simp_all

lemma aliasChain_unwrapInit [simp]: "aliasChain scope k (unwrapInit n) = aliasChain scope k n"
  by (cases k) simp_all

lemma foldConstant_beyond_bound: "5 < d \<Longrightarrow> foldConstant P n sc imp d = dynamic"
  by (simp add: foldConstant.simps split: option.split)

lemma foldConstant_StringLiteral:
  "d \<le> 5 \<Longrightarrow> foldConstant P (Some (StringLiteral s)) sc imp d = resolved (VString s)"
  by (subst foldConstant.simps) simp

lemma foldConstant_local:
  "d \<le> 5 \<Longrightarrow> unwrapTS n = Identifier x \<Longrightarrow> sc x = Some b \<Longrightarrow> kind b \<noteq> KModule \<Longrightarrow>
   path b = VariableDeclarator init sid \<Longrightarrow>
   foldConstant P (Some n) sc imp d = foldConstant P (map_option unwrapInit init) sc imp (Suc d)"
  by (subst foldConstant.simps) simp

lemma foldConstant_local_string:
  "d < 5 \<Longrightarrow> sc x = Some b \<Longrightarrow> kind b \<noteq> KModule \<Longrightarrow>
   path b = VariableDeclarator (Some (StringLiteral a)) sid \<Longrightarrow>
   foldConstant P (Some (Identifier x)) sc imp d = resolved (VString a)"
  by (simp add: foldConstant_local [where x = x] foldConstant_StringLiteral)

lemma foldConstant_param:
  "sc x = Some b \<Longrightarrow> kind b = KParam \<Longrightarrow> path b = ParamPath g \<Longrightarrow>
   foldConstant P (Some (Identifier x)) sc imp d = dynamic"
  by (subst foldConstant.simps) simp

lemma foldElements_string_literals:
  "d < 5 \<Longrightarrow> ty = TUnknown \<or> ty = TString \<Longrightarrow>
   foldElements P (map (\<lambda>e. Some (StringLiteral e)) elems) sc imp d ty strs objs =
     (if elems = [] then ty else TString, strs @ elems, objs)"
  by (induction elems arbitrary: ty strs) (auto simp: foldConstant_StringLiteral)

lemma foldConstant_string_array:
  "d \<le> 4 \<Longrightarrow>
   foldConstant P (Some (ArrayExpression (map (\<lambda>e. Some (StringLiteral e)) elems))) sc imp d =
     (if elems = [] then dynamic else resolved (VStringArray elems))"
  by (subst foldConstant.simps) (simp add: foldElements_string_literals)

subsection \<open>The recursion is well-founded\<close>

lemma foldConstant_dom_all:
  "All foldConstant_foldElements_foldProperties_foldTemplate_foldImported_dom"
  by (relation "inv_image (less_than <*lex*> less_than <*lex*> less_than) foldRank")
     (auto simp: foldRank_def)

lemma foldConstant_dom_total:
  "foldConstant_foldElements_foldProperties_foldTemplate_foldImported_dom x"
  using foldConstant_dom_all by (rule spec)

subsection \<open>Alias chains\<close>

lemma aliasChain_dynamic:
  "aliasChain sc k n \<Longrightarrow> 5 < d + k \<Longrightarrow> foldConstant P (Some n) sc imp d = dynamic"
proof (induction k arbitrary: d n)
  case 0
  then show ?case by (simp add: foldConstant_beyond_bound)
next
  case (Suc k)
  show ?case
  proof (cases "5 < d")
    case True
    then show ?thesis by (simp add: foldConstant_beyond_bound)
  next
    case False
    from Suc.prems(1) obtain x b init sid where
      x: "unwrapTS n = Identifier x" and b: "sc x = Some b" and nm: "kind b \<noteq> KModule"
      and p: "path b = VariableDeclarator (Some init) sid" and ch: "aliasChain sc k init"
      by (auto split: node.splits option.splits bindingPath.splits)
    from Suc.prems(2) have "5 < Suc d + k" by simp
    with ch have "foldConstant P (Some (unwrapInit init)) sc imp (Suc d) = dynamic"
      using Suc.IH [of "unwrapInit init" "Suc d"] by simp
    with False x b nm p show ?thesis
      by (subst foldConstant.simps) simp
  qed
qed

subsection \<open>The invariant of the result\<close>

lemma wellFormed_dynamic [simp]: "wellFormed dynamic"
  by (simp add: wellFormed_def dynamic_def)

lemma wellFormed_resolved [simp]: "wellFormed (resolved v)"
  by (simp add: wellFormed_def resolved_def)

lemma foldImported_wellFormed:
  "wellFormed acc \<Longrightarrow> (\<And>n. wellFormed (foldConstant P n emptyScope None (Suc d)))
   \<Longrightarrow> wellFormed (foldImported P inits d acc)"
  by (induction inits arbitrary: acc) auto

lemma foldConstant_wellFormed_aux:
  "6 - d = k \<Longrightarrow> wellFormed (foldConstant P n sc imp d)"
proof (induction k arbitrary: d n sc imp)
  case 0
  then have "5 < d" by simp
  then show ?case by (simp add: foldConstant_beyond_bound)
next
  case (Suc k)
  then have step: "\<And>n sc imp. wellFormed (foldConstant P n sc imp (Suc d))"
    by simp
  show ?case
    by (subst foldConstant.simps)
       (auto simp: Let_def step foldImported_wellFormed
             split: option.split node.split prod.split arrayType.split bindingPath.split)
qed

lemma foldConstant_wellFormed: "wellFormed (foldConstant P n sc imp d)"
  using foldConstant_wellFormed_aux by blast

subsection \<open>Imported identifiers\<close>

lemma foldImported_last:
  "foldImported P inits d acc =
     (if inits = [] then acc else foldConstant P (last inits) emptyScope None (Suc d))"
  by (induction inits arbitrary: acc) simp_all

lemma foldConstant_import:
  assumes "sc x = Some b" and "kind b = KModule" and "path b = ImportSpecifier importedName source"
  shows "foldConstant P (Some (Identifier x)) sc importer d =
     (if 5 < d then dynamic
      else case importer of
             None \<Rightarrow> dynamic
           | Some imp \<Rightarrow>
               (case imp source of
                  None \<Rightarrow> dynamic
                | Some code \<Rightarrow>
                    if code = [] then dynamic
                    else (case parseCode P code of
                            None \<Rightarrow> dynamic
                          | Some tree \<Rightarrow>
                              foldImported P (matchingInits (exportNamed tree) importedName)
                                d dynamic)))"
  using assms by (subst foldConstant.simps) simp

lemma foldConstant_emptyScope_Identifier:
  "foldConstant P (Some (Identifier y)) emptyScope imp d = dynamic"
  by (subst foldConstant.simps) (simp add: emptyScope_def)

lemma foldProperties_parser_cong:
  assumes "\<And>n. foldConstant P n sc imp (Suc d) = foldConstant P' n sc imp (Suc d)"
  shows "foldProperties P props sc imp d obj = foldProperties P' props sc imp d obj"
  by (induction props arbitrary: obj)
     (simp_all add: assms split: property.split node.split option.split)

lemma foldElements_parser_cong:
  assumes "\<And>n. foldConstant P n sc imp (Suc d) = foldConstant P' n sc imp (Suc d)"
  shows "foldElements P els sc imp d ty strs objs = foldElements P' els sc imp d ty strs objs"
proof (induction els arbitrary: ty strs objs)
  case Nil
  show ?case by simp
next
  case (Cons el els)
  show ?case
  proof (cases el)
    case None
    then show ?thesis by (simp add: Cons.IH)
  next
    case (Some e)
    have props: "\<And>ps obj. foldProperties P ps sc imp d obj = foldProperties P' ps sc imp d obj"
      using assms by (rule foldProperties_parser_cong)
    show ?thesis
      by (simp add: Some assms Cons.IH props Let_def split: option.split node.split)
  qed
qed

lemma foldTemplate_parser_cong:
  assumes "\<And>n. foldConstant P n sc imp (Suc d) = foldConstant P' n sc imp (Suc d)"
  shows "foldTemplate P qs es sc imp d parts = foldTemplate P' qs es sc imp d parts"
  by (induction qs arbitrary: es parts)
     (simp_all add: assms split: list.split option.split)

lemma foldConstant_emptyScope_parser_aux:
  "6 - d = k \<Longrightarrow>
   foldConstant P n emptyScope None d = foldConstant P' n emptyScope None d"
proof (induction k arbitrary: d n)
  case 0
  then have "5 < d" by simp
  then show ?case by (simp add: foldConstant_beyond_bound)
next
  case (Suc k)
  then have step: "\<And>n. foldConstant P n emptyScope None (Suc d) =
                       foldConstant P' n emptyScope None (Suc d)"
    by simp
  have els: "\<And>els ty strs objs.
      foldElements P els emptyScope None d ty strs objs =
      foldElements P' els emptyScope None d ty strs objs"
    using step by (rule foldElements_parser_cong)
  have tmpl: "\<And>qs es parts.
      foldTemplate P qs es emptyScope None d parts = foldTemplate P' qs es emptyScope None d parts"
    using step by (rule foldTemplate_parser_cong)
  have none: "\<And>x. emptyScope x = None"
    by (simp add: emptyScope_def)
  show ?case
    apply (subst foldConstant.simps [of P n emptyScope None d])
    apply (subst foldConstant.simps [of P' n emptyScope None d])
    apply (simp add: step els tmpl none Let_def cong: option.case_cong node.case_cong if_cong)
    done
qed

lemma foldConstant_emptyScope_parser:
  "foldConstant P n emptyScope None d = foldConstant P' n emptyScope None d"
  using foldConstant_emptyScope_parser_aux by blast

text \<open>
  Which exported declarators an imported name selects, said by the names: none when no
  declarator bears the name, and the last one that bears it otherwise.
\<close>

lemma matchingInits_append:
  "matchingInits (xs @ ys) n = matchingInits xs n @ matchingInits ys n"
  by (induction xs n rule: matchingInits.induct) simp_all

lemma matchingInits_no_name:
  "(\<And>decls. Some (VariableDeclaration decls) \<in> set es \<Longrightarrow> \<forall>d \<in> set decls. fst d \<noteq> n)
   \<Longrightarrow> matchingInits es n = []"
proof (induction es)
  case Nil
  show ?case by simp
next
  case (Cons e es)
  have rest: "matchingInits es n = []"
    using Cons.prems by (intro Cons.IH) auto
  show ?case
  proof (cases e)
    case None
    then show ?thesis by (simp add: rest)
  next
    case (Some decl)
    show ?thesis
    proof (cases decl)
      case (VariableDeclaration decls)
      have "filter (\<lambda>d. fst d = n) decls = []"
        using Cons.prems [of decls] Some VariableDeclaration
        by (auto simp: filter_empty_conv)
      then show ?thesis
        by (simp add: Some VariableDeclaration rest)
    next
      case OtherDeclaration
      then show ?thesis by (simp add: Some rest)
    qed
  qed
qed

lemma matchingInits_last_name:
  assumes "\<forall>d \<in> set declsAfter. fst d \<noteq> n"
    and "\<And>decls. Some (VariableDeclaration decls) \<in> set post \<Longrightarrow> \<forall>d \<in> set decls. fst d \<noteq> n"
  shows "matchingInits (pre @ Some (VariableDeclaration (declsBefore @ (n, init) # declsAfter)) # post) n \<noteq> []
     \<and> last (matchingInits (pre @ Some (VariableDeclaration (declsBefore @ (n, init) # declsAfter)) # post) n)
         = init"
proof -
  have post: "matchingInits post n = []"
    using assms(2) by (rule matchingInits_no_name)
  have declsAfter: "filter (\<lambda>decl. fst decl = n) declsAfter = []"
    using assms(1) by (auto simp: filter_empty_conv)
  show ?thesis
    by (simp add: matchingInits_append post declsAfter)
qed

lemma import_without_resolver:
  assumes "scope x = Some b" and "kind b = KModule"
    and "path b = ImportSpecifier importedName source"
  shows "foldConstant parse (Some (Identifier x)) scope None depth = dynamic"
  by (simp add: foldConstant_import [where sc = scope and x = x, OF assms])

lemma import_unparsable_module:
  assumes "scope x = Some b" and "kind b = KModule"
    and "path b = ImportSpecifier importedName source"
    and "imp source = Some code" and "parse code = Inl e"
  shows "foldConstant parse (Some (Identifier x)) scope (Some imp) depth = dynamic"
  using assms(4,5)
  by (simp add: foldConstant_import [where sc = scope and x = x, OF assms(1-3)] parseCode_def)

lemma named_import_no_export:
  assumes "scope x = Some b" and "kind b = KModule"
    and "path b = ImportSpecifier (Some name) source"
    and "imp source = Some code" and "parse code = Inr tree"
    and "\<And>decls. Some (VariableDeclaration decls) \<in> set (exportNamed tree) \<Longrightarrow>
           \<forall>d \<in> set decls. fst d \<noteq> Some name"
  shows "foldConstant parse (Some (Identifier x)) scope (Some imp) depth = dynamic"
proof -
  have "matchingInits (exportNamed tree) (Some name) = []"
    using assms(6) by (rule matchingInits_no_name)
  with assms(4,5) show ?thesis
    by (simp add: foldConstant_import [where sc = scope and x = x, OF assms(1-3)] parseCode_def)
qed

lemma named_import_last_export:
  assumes "scope x = Some b" and "kind b = KModule"
    and "path b = ImportSpecifier (Some name) source"
    and "imp source = Some code" and "code \<noteq> []" and "parse code = Inr tree"
    and "exportNamed tree =
           pre @ Some (VariableDeclaration (declsBefore @ (Some name, init) # declsAfter)) # post"
    and "\<forall>d \<in> set declsAfter. fst d \<noteq> Some name"
    and "\<And>decls. Some (VariableDeclaration decls) \<in> set post \<Longrightarrow>
           \<forall>d \<in> set decls. fst d \<noteq> Some name"
    and "depth \<le> 5"
  shows "foldConstant parse (Some (Identifier x)) scope (Some imp) depth =
         foldConstant parse' init emptyScope None (depth + 1)"
proof -
  have m: "matchingInits (exportNamed tree) (Some name) \<noteq> []
      \<and> last (matchingInits (exportNamed tree) (Some name)) = init"
    unfolding assms(7) using assms(8,9) by (rule matchingInits_last_name)
  have "foldConstant parse (Some (Identifier x)) scope (Some imp) depth =
        foldConstant parse init emptyScope None (Suc depth)"
    using assms(4,5,6,10) m
    by (simp add: foldConstant_import [where sc = scope and x = x, OF assms(1-3)]
          parseCode_def foldImported_last)
  then show ?thesis
    by (simp add: foldConstant_emptyScope_parser [of parse _ _ parse'])
qed

subsection \<open>Namespaces and keys of a lookup\<close>

lemma dynamic_sel [simp]: "isDynamic dynamic" "rvalue dynamic = None"
  by (simp_all add: dynamic_def)

lemma resolved_sel [simp]: "\<not> isDynamic (resolved v)" "rvalue (resolved v) = Some v"
  by (simp_all add: resolved_def)

lemma scopeNamespace_truthy:
  "scopeNamespace parse scopes importer scope v = Some s \<Longrightarrow> s \<noteq> []"
  by (auto simp: scopeNamespace_def Let_def truthy_def
           split: option.splits bindingPath.splits node.splits if_splits)

lemma scopeNamespace_accessor:
  assumes "scope v = Some b"
    and "path b = VariableDeclarator (Some init) bindingScope"
    and "init = CallExpression c args \<or> init = AwaitExpression (CallExpression c args)"
    and "fnNameOf c = Some ''useTranslations'' \<or> fnNameOf c = Some ''getTranslations''"
  shows "scopeNamespace parse scopes importer scope v =
     (let res = resolveNamespaceFromCall parse args (scopes bindingScope) importer ''unknown'' 0
      in if truthy (nsNamespace res) then nsNamespace res else None)"
  using assms by (auto simp: scopeNamespace_def)

lemma namespaceOf_empty_from_map:
  "namespaceOf parse scopes varNamespaceMap importer scope v = Some [] \<Longrightarrow>
   varNamespaceMap v = Some []"
  by (auto simp: namespaceOf_def Let_def truthy_def
           dest: scopeNamespace_truthy split: if_splits option.splits)

lemma keysToEmit_map_param:
  assumes "scope p = Some bp" and "kind bp = KParam"
    and "path bp = ParamPath (Some (CallExpression
           (MemberExpression (Identifier X) (Identifier ''map'')) margs))"
    and "scope X = Some bx" and "kind bx \<noteq> KModule"
    and "path bx = VariableDeclarator
           (Some (ArrayExpression (map (\<lambda>e. Some (StringLiteral e)) elems))) sx"
  shows "keysToEmit parse importer scope (Identifier p) = elems"
proof -
  have p: "foldConstant parse (Some (Identifier p)) scope importer 0 = dynamic"
    using assms(1-3) by (rule foldConstant_param)
  have "foldConstant parse (Some (Identifier X)) scope importer 0 =
        foldConstant parse
          (Some (ArrayExpression (map (\<lambda>e. Some (StringLiteral e)) elems))) scope importer (Suc 0)"
    using foldConstant_local [where n = "Identifier X" and x = X and sc = scope and d = 0,
        OF _ _ assms(4-6)]
    by simp
  then have X: "foldConstant parse (Some (Identifier X)) scope importer 0 =
      (if elems = [] then dynamic else resolved (VStringArray elems))"
    by (simp add: foldConstant_string_array)
  show ?thesis
    using assms(1-3)
    by (cases elems) (simp_all add: keysToEmit_def mapArrayOf_def p X)
qed

text \<open>A callback on anything but an identifier, an array literal included, yields no key.\<close>

lemma map_on_non_identifier_no_key:
  assumes "scope p = Some bp" and "kind bp = KParam"
    and "path bp = ParamPath (Some (CallExpression (MemberExpression obj member) margs))"
    and "\<And>X. obj \<noteq> Identifier X"
  shows "keysToEmit parse importer scope (Identifier p) = []"
proof -
  have p: "foldConstant parse (Some (Identifier p)) scope importer 0 = dynamic"
    using assms(1-3) by (rule foldConstant_param)
  have "mapArrayOf parse importer scope p = None"
    using assms by (cases obj) (auto simp: mapArrayOf_def)
  then show ?thesis
    by (simp add: keysToEmit_def p)
qed

text \<open>The definitions that a run of the two passes on a concrete tree unfolds.\<close>

lemmas eval_defs =
  analyzeTranslationUsages_def parseCode_def visitCallExpression_def namespaceOf_def
  scopeNamespace_def resolveNamespaceFromCall_def keysToEmit_def mapArrayOf_def fnNameOf_def
  nodeName_def truthy_def orZero_def isLiteralArg_def constDeclarator_def accessorCall_def
  functionBinding_def

lemmas eval_defs1 =
  analyzeUseTranslations_def visitVariableDeclarator_def functionNameOf_def varNamespaceMapOf_def
  detectKeysAnalyzed_def

section \<open>The claims\<close>

text \<open>
  C1. Let the parser give, for the source text, the tree of
  \<^verbatim>\<open>const t = useTranslations('auth'); t('login.title')\<close>, and let the fallback map have no
  entry for the name \<^verbatim>\<open>useTranslations\<close> itself. Usage discovery returns exactly one key,
  \<^verbatim>\<open>auth.login.title\<close>, quoted, at the offsets of the literal, whatever the import resolver.
  The delimiter is the \<^verbatim>\<open>.\<close> that the source writes into the key.
\<close>

theorem login_title_scenario:
  assumes "parse code = Inr loginTree" and "varNamespaceMap ''useTranslations'' = None"
  shows "analyzeTranslationUsages parse code varNamespaceMap importer =
     [\<lparr>key = ''auth.login.title'', start = 37, endOffset = 50, quoted = True,
       namespace = Some ''auth'', variableName = ''t''\<rparr>]"
  using assms
  by (simp add: analyzeTranslationUsages_def parseCode_def loginTree_def loginScope_def
        constDeclarator_def visitCallExpression_def namespaceOf_def scopeNamespace_def
        resolveNamespaceFromCall_def keysToEmit_def fnNameOf_def nodeName_def truthy_def
        orZero_def isLiteralArg_def foldConstant_StringLiteral)

theorem login_title_scenario_witness:
  "analyzeTranslationUsages (\<lambda>_. Inr loginTree)
     ''const t = useTranslations('auth'); t('login.title')'' Map.empty None =
     [\<lparr>key = ''auth.login.title'', start = 37, endOffset = 50, quoted = True,
       namespace = Some ''auth'', variableName = ''t''\<rparr>]"
  using login_title_scenario [of "\<lambda>_. Inr loginTree" _ Map.empty None]
  by simp

text \<open>
  C2, as amended. Take a lookup call on \<open>v\<close> whose first argument is the identifier \<open>p\<close>,
  where the scope of the call binds \<open>p\<close> as a parameter of a function that is an argument
  of a call \<^verbatim>\<open>X.map(...)\<close> on an identifier \<open>X\<close>, and binds \<open>X\<close> to a declarator initialised
  with the array literal of the string literals \<open>elems\<close>. If the namespace of \<open>v\<close> is \<open>ns\<close>,
  the lookup emits exactly one key per element, in the order of the array: \<open>ns\<close>, a dot
  and the element when \<open>ns\<close> is not empty, the element alone when it is.
\<close>

theorem map_iteration_expands_string_array:
  assumes "callee nodePath = Identifier v
           \<or> (callee nodePath = MemberExpression (Identifier v) (Identifier m)
               \<and> m \<in> {''rich'', ''markup'', ''raw''})"
    and "v \<noteq> []"
    and "arguments nodePath = Identifier p # rest"
    and "scopes (callScope nodePath) p = Some bp" and "kind bp = KParam"
    and "path bp = ParamPath (Some (CallExpression
           (MemberExpression (Identifier X) (Identifier ''map'')) margs))"
    and "scopes (callScope nodePath) X = Some bx" and "kind bx \<noteq> KModule"
    and "path bx = VariableDeclarator
           (Some (ArrayExpression (map (\<lambda>e. Some (StringLiteral e)) elems))) sx"
    and "namespaceOf parse scopes varNamespaceMap importer (scopes (callScope nodePath)) v
           = Some ns"
  shows "visitCallExpression parse scopes varNamespaceMap importer nodePath =
     map (\<lambda>e. \<lparr>key = (if ns = [] then e else ns @ ''.'' @ e),
                start = orZero (firstArgStart nodePath),
                endOffset = orZero (firstArgEnd nodePath),
                quoted = False,
                namespace = Some ns,
                variableName = v\<rparr>)
         elems"
proof -
  have keys: "keysToEmit parse importer (scopes (callScope nodePath)) (Identifier p) = elems"
    using assms(4-9) by (rule keysToEmit_map_param)
  have has: "ns = [] \<longrightarrow> varNamespaceMap v \<noteq> None"
    using assms(10) by (auto dest: namespaceOf_empty_from_map)
  from assms(1) show ?thesis
  proof
    assume "callee nodePath = Identifier v"
    then show ?thesis
      using assms(2,3,10) keys has
      by (auto simp: visitCallExpression_def truthy_def isLiteralArg_def Let_def)
  next
    assume "callee nodePath = MemberExpression (Identifier v) (Identifier m)
            \<and> m \<in> {''rich'', ''markup'', ''raw''}"
    then show ?thesis
      using assms(2,3,10) keys has
      by (auto simp: visitCallExpression_def truthy_def isLiteralArg_def nodeName_def Let_def)
  qed
qed

theorem map_iteration_expands_string_array_witness:
  "analyzeTranslationUsages (\<lambda>_. Inr itemsTree)
     ''const ITEMS = ['a','b']; ITEMS.map(i => t(i))'' [''t'' \<mapsto> ''ns''] None =
     [\<lparr>key = ''ns.a'', start = 42, endOffset = 43, quoted = False,
       namespace = Some ''ns'', variableName = ''t''\<rparr>,
      \<lparr>key = ''ns.b'', start = 42, endOffset = 43, quoted = False,
       namespace = Some ''ns'', variableName = ''t''\<rparr>]"
proof -
  let ?P = "\<lambda>_. Inr itemsTree"
  let ?m = "[''t'' \<mapsto> ''ns'']"
  have lookup: "visitCallExpression ?P itemsScopes ?m None itemsLookup =
     [\<lparr>key = ''ns.a'', start = 42, endOffset = 43, quoted = False,
       namespace = Some ''ns'', variableName = ''t''\<rparr>,
      \<lparr>key = ''ns.b'', start = 42, endOffset = 43, quoted = False,
       namespace = Some ''ns'', variableName = ''t''\<rparr>]"
    using map_iteration_expands_string_array
      [where nodePath = itemsLookup and v = "''t''" and m = "''rich''" and p = "''i''"
         and rest = "[]" and scopes = itemsScopes
         and bp = "paramOf (mapCallOn (Identifier ''ITEMS''))" and X = "''ITEMS''"
         and margs = "[OtherNode]" and bx = "constDeclarator itemsArray 0"
         and elems = "[''a'', ''b'']" and sx = 0 and parse = ?P and varNamespaceMap = ?m
         and importer = None and ns = "''ns''"]
    by (simp add: itemsLookup_def itemsScopes_def itemsArray_def paramOf_def mapCallOn_def
          constDeclarator_def namespaceOf_def scopeNamespace_def truthy_def orZero_def)
  have mapCall: "visitCallExpression ?P itemsScopes ?m None
       \<lparr>callee = MemberExpression (Identifier ''ITEMS'') (Identifier ''map''),
        arguments = [OtherNode],
        firstArgStart = Some 35, firstArgEnd = Some 44, callScope = 0\<rparr> = []"
    by (simp add: visitCallExpression_def nodeName_def truthy_def)
  have tree:
    "calls itemsTree =
       [\<lparr>callee = MemberExpression (Identifier ''ITEMS'') (Identifier ''map''),
         arguments = [OtherNode],
         firstArgStart = Some 35, firstArgEnd = Some 44, callScope = 0\<rparr>,
        itemsLookup]"
    "scopeOf itemsTree = itemsScopes"
    by (simp_all add: itemsTree_def)
  show ?thesis
    by (simp only: analyzeTranslationUsages_def parseCode_def sum.case option.case tree
          list.map concat.simps lookup mapCall append_Nil append_Cons)
qed

text \<open>
  C2, as stated, fails. A callback on the array literal itself yields no key, since the
  object of \<^verbatim>\<open>.map\<close> must be an identifier; and with the empty namespace the keys are the
  bare elements \<^verbatim>\<open>a\<close> and \<^verbatim>\<open>b\<close>, not \<^verbatim>\<open>.a\<close> and \<^verbatim>\<open>.b\<close>.
\<close>

theorem map_over_array_literal_counterexample:
  "analyzeTranslationUsages (\<lambda>_. Inr directMapTree)
     ''['a','b'].map(i => t(i))'' [''t'' \<mapsto> ''ns''] None = []
   \<and> map key (analyzeTranslationUsages (\<lambda>_. Inr itemsTree)
       ''const ITEMS = ['a','b']; ITEMS.map(i => t(i))'' [''t'' \<mapsto> []] None) = [''a'', ''b'']"
proof -
  have direct: "analyzeTranslationUsages (\<lambda>_. Inr directMapTree)
     ''['a','b'].map(i => t(i))'' [''t'' \<mapsto> ''ns''] None = []"
    by (simp add: eval_defs directMapTree_def directMapScopes_def paramOf_def mapCallOn_def
          itemsArray_def foldConstant.simps)
  have bare: "map key (analyzeTranslationUsages (\<lambda>_. Inr itemsTree)
       ''const ITEMS = ['a','b']; ITEMS.map(i => t(i))'' [''t'' \<mapsto> []] None) = [''a'', ''b'']"
    by (simp add: eval_defs itemsTree_def itemsLookup_def itemsScopes_def paramOf_def
          mapCallOn_def itemsArray_def foldConstant.simps Let_def)
  from direct bare show ?thesis by simp
qed

text \<open>
  C3. The claim holds for a namespace that comes from the fallback map
  (\<open>empty_namespace_from_map_bare_key\<close> below), and fails for one that comes from the scope:
  an accessor call that resolves to the empty string counts as unresolved, because the
  result is tested for truthiness. Run as \<^verbatim>\<open>detectKeys\<close> runs them, the two passes qualify the
  key of the function whose namespace is empty with the other function's namespace; and
  with no entry in the map the lookup yields no key at all.
\<close>

theorem empty_scope_namespace_takes_fallback:
  "map key (detectKeysAnalyzed (\<lambda>_. Inr emptyNamespaceTree) id
      ''function A() { const t = useTranslations(\"\"); t('key1'); } function B() { const t = useTranslations('ns2'); t('key2'); }''
      ''page.tsx'' None) = [''ns2.key1'', ''ns2.key2'']
   \<and> analyzeTranslationUsages (\<lambda>_. Inr singleEmptyTree)
       ''const t = useTranslations(\"\"); t('k')'' Map.empty None = []"
  by (simp add: eval_defs eval_defs1 emptyNamespaceTree_def singleEmptyTree_def
        twoFunctionsScopes_def foldConstant_StringLiteral)

lemma empty_namespace_from_map_bare_key:
  assumes "namespaceOf parse scopes varNamespaceMap importer (scopes (callScope nodePath)) v
             = Some []"
    and "callee nodePath = Identifier v" and "v \<noteq> []"
    and "arguments nodePath = firstArg # rest"
  shows "map key (visitCallExpression parse scopes varNamespaceMap importer nodePath) =
         keysToEmit parse importer (scopes (callScope nodePath)) firstArg"
  using assms namespaceOf_empty_from_map [OF assms(1)]
  by (simp add: visitCallExpression_def truthy_def Let_def comp_def)

text \<open>
  C4. The namespace of a lookup is resolved in the scope of the declarator that binds its
  variable, and two functions that each declare their own \<^verbatim>\<open>t\<close> keep their own namespaces
  as long as these resolve to non-empty strings (\<open>namespace_from_binding_scope\<close> and
  \<open>two_functions_own_namespaces\<close> below). The claim fails where one of the two namespaces
  is the empty string: the scope-based result is tested for truthiness, the lookup falls
  back to the map, and the key of \<^verbatim>\<open>A\<close> is qualified by the namespace of \<^verbatim>\<open>B\<close>.
\<close>

theorem two_functions_empty_namespace_confused:
  "analyzeTranslationUsages (\<lambda>_. Inr emptyNamespaceTree)
     ''function A() { const t = useTranslations(\"\"); t('key1'); } function B() { const t = useTranslations('ns2'); t('key2'); }''
     [''t'' \<mapsto> ''ns2''] None =
     [\<lparr>key = ''ns2.key1'', start = 48, endOffset = 54, quoted = True,
       namespace = Some ''ns2'', variableName = ''t''\<rparr>,
      \<lparr>key = ''ns2.key2'', start = 110, endOffset = 116, quoted = True,
       namespace = Some ''ns2'', variableName = ''t''\<rparr>]"
  by (simp add: eval_defs emptyNamespaceTree_def twoFunctionsScopes_def
        foldConstant_StringLiteral)

text \<open>
  Take a lookup call on \<open>v\<close>, as \<^verbatim>\<open>v(...)\<close> or as \<^verbatim>\<open>v.rich(...)\<close>, \<^verbatim>\<open>v.markup(...)\<close>,
  \<^verbatim>\<open>v.raw(...)\<close>, where the scope of the call binds \<open>v\<close> to a declarator whose initializer
  is a call of \<^verbatim>\<open>useTranslations\<close> or \<^verbatim>\<open>getTranslations\<close>, awaited or not. If the namespace
  of that accessor call, resolved in the scope of the declarator, is the non-empty string
  \<open>ns\<close>, then every key the lookup emits is qualified by \<open>ns\<close>, whatever the fallback map says
  about \<open>v\<close> and whatever the scope of the lookup says about the names in the accessor's
  argument.
\<close>

lemma namespace_from_binding_scope:
  assumes "callee nodePath = Identifier v
           \<or> (callee nodePath = MemberExpression (Identifier v) (Identifier m)
               \<and> m \<in> {''rich'', ''markup'', ''raw''})"
    and "v \<noteq> []"
    and "arguments nodePath = firstArg # rest"
    and "scopes (callScope nodePath) v = Some b"
    and "path b = VariableDeclarator (Some init) bindingScope"
    and "init = CallExpression c args \<or> init = AwaitExpression (CallExpression c args)"
    and "fnNameOf c = Some ''useTranslations'' \<or> fnNameOf c = Some ''getTranslations''"
    and "nsNamespace (resolveNamespaceFromCall parse args (scopes bindingScope) importer
           ''unknown'' 0) = Some ns"
    and "ns \<noteq> []"
  shows "visitCallExpression parse scopes varNamespaceMap importer nodePath =
     map (\<lambda>k. \<lparr>key = ns @ ''.'' @ k,
                start = orZero (firstArgStart nodePath),
                endOffset = orZero (firstArgEnd nodePath),
                quoted = isLiteralArg firstArg,
                namespace = Some ns,
                variableName = v\<rparr>)
         (keysToEmit parse importer (scopes (callScope nodePath)) firstArg)"
proof -
  have "scopeNamespace parse scopes importer (scopes (callScope nodePath)) v = Some ns"
    using scopeNamespace_accessor [where scope = "scopes (callScope nodePath)" and v = v, OF assms(4-7), of parse scopes importer] assms(8,9)
    by (simp add: truthy_def)
  then have ns: "namespaceOf parse scopes varNamespaceMap importer (scopes (callScope nodePath)) v
      = Some ns"
    using assms(9) by (simp add: namespaceOf_def truthy_def)
  from assms(1) show ?thesis
  proof
    assume "callee nodePath = Identifier v"
    then show ?thesis
      using assms(2,3,9) ns by (simp add: visitCallExpression_def truthy_def)
  next
    assume "callee nodePath = MemberExpression (Identifier v) (Identifier m)
            \<and> m \<in> {''rich'', ''markup'', ''raw''}"
    then show ?thesis
      using assms(2,3,9) ns by (auto simp: visitCallExpression_def truthy_def nodeName_def)
  qed
qed

text \<open>
  Instances: the pair of functions with the namespaces \<^verbatim>\<open>ns1\<close> and \<^verbatim>\<open>ns2\<close>, with the
  fallback map sending \<^verbatim>\<open>t\<close> to \<^verbatim>\<open>ns2\<close>, and the lookup below the shadowing declaration of
  \<^verbatim>\<open>ns\<close>.
\<close>

lemma two_functions_own_namespaces:
  "analyzeTranslationUsages (\<lambda>_. Inr twoFunctionsTree)
     ''function A() { const t = useTranslations('ns1'); t('key1'); } function B() { const t = useTranslations('ns2'); t('key2'); }''
     [''t'' \<mapsto> ''ns2''] None =
     [\<lparr>key = ''ns1.key1'', start = 51, endOffset = 57, quoted = True,
       namespace = Some ''ns1'', variableName = ''t''\<rparr>,
      \<lparr>key = ''ns2.key2'', start = 113, endOffset = 119, quoted = True,
       namespace = Some ''ns2'', variableName = ''t''\<rparr>]
   \<and> visitCallExpression rejectAll shadowScopes Map.empty None shadowLookup =
     [\<lparr>key = ''global.k'', start = 108, endOffset = 111, quoted = True,
       namespace = Some ''global'', variableName = ''t''\<rparr>]"
proof -
  let ?P = "\<lambda>_. Inr twoFunctionsTree"
  let ?m = "[''t'' \<mapsto> ''ns2'']"
  let ?lookupA = "\<lparr>callee = Identifier ''t'', arguments = [StringLiteral ''key1''],
          firstArgStart = Some 51, firstArgEnd = Some 57, callScope = 1\<rparr>"
  have inA: "visitCallExpression ?P (twoFunctionsScopes ''ns1'') ?m None ?lookupA =
     [\<lparr>key = ''ns1.key1'', start = 51, endOffset = 57, quoted = True,
       namespace = Some ''ns1'', variableName = ''t''\<rparr>]"
    using namespace_from_binding_scope
      [where nodePath = ?lookupA and v = "''t''" and m = "''rich''"
         and firstArg = "StringLiteral ''key1''" and rest = "[]"
         and scopes = "twoFunctionsScopes ''ns1''"
         and b = "constDeclarator (accessorCall (StringLiteral ''ns1'')) 1"
         and init = "accessorCall (StringLiteral ''ns1'')" and bindingScope = 1
         and c = "Identifier ''useTranslations''" and args = "[StringLiteral ''ns1'']"
         and parse = ?P and importer = None and ns = "''ns1''" and varNamespaceMap = ?m]
    by (simp add: twoFunctionsScopes_def eval_defs foldConstant_StringLiteral)
  have others:
    "visitCallExpression ?P (twoFunctionsScopes ''ns1'') ?m None
       \<lparr>callee = Identifier ''useTranslations'', arguments = [StringLiteral ''ns1''],
        firstArgStart = Some 41, firstArgEnd = Some 46, callScope = 1\<rparr> = []"
    "visitCallExpression ?P (twoFunctionsScopes ''ns1'') ?m None
       \<lparr>callee = Identifier ''useTranslations'', arguments = [StringLiteral ''ns2''],
        firstArgStart = Some 103, firstArgEnd = Some 108, callScope = 2\<rparr> = []"
    "visitCallExpression ?P (twoFunctionsScopes ''ns1'') ?m None
       \<lparr>callee = Identifier ''t'', arguments = [StringLiteral ''key2''],
        firstArgStart = Some 113, firstArgEnd = Some 119, callScope = 2\<rparr> =
     [\<lparr>key = ''ns2.key2'', start = 113, endOffset = 119, quoted = True,
       namespace = Some ''ns2'', variableName = ''t''\<rparr>]"
    by (simp_all add: twoFunctionsScopes_def eval_defs foldConstant_StringLiteral)
  have tree:
    "calls twoFunctionsTree =
       [\<lparr>callee = Identifier ''useTranslations'', arguments = [StringLiteral ''ns1''],
         firstArgStart = Some 41, firstArgEnd = Some 46, callScope = 1\<rparr>,
        ?lookupA,
        \<lparr>callee = Identifier ''useTranslations'', arguments = [StringLiteral ''ns2''],
         firstArgStart = Some 103, firstArgEnd = Some 108, callScope = 2\<rparr>,
        \<lparr>callee = Identifier ''t'', arguments = [StringLiteral ''key2''],
         firstArgStart = Some 113, firstArgEnd = Some 119, callScope = 2\<rparr>]"
    "scopeOf twoFunctionsTree = twoFunctionsScopes ''ns1''"
    by (simp_all add: twoFunctionsTree_def)
  have whole: "analyzeTranslationUsages ?P
     ''function A() { const t = useTranslations('ns1'); t('key1'); } function B() { const t = useTranslations('ns2'); t('key2'); }''
     ?m None =
     [\<lparr>key = ''ns1.key1'', start = 51, endOffset = 57, quoted = True,
       namespace = Some ''ns1'', variableName = ''t''\<rparr>,
      \<lparr>key = ''ns2.key2'', start = 113, endOffset = 119, quoted = True,
       namespace = Some ''ns2'', variableName = ''t''\<rparr>]"
    by (simp only: analyzeTranslationUsages_def parseCode_def sum.case option.case tree
          list.map concat.simps inA others append_Nil append_Cons)
  have shadow: "visitCallExpression rejectAll shadowScopes Map.empty None shadowLookup =
     [\<lparr>key = ''global.k'', start = 108, endOffset = 111, quoted = True,
       namespace = Some ''global'', variableName = ''t''\<rparr>]"
    using namespace_from_binding_scope
      [where nodePath = shadowLookup and v = "''t''" and m = "''rich''"
         and firstArg = "StringLiteral ''k''" and rest = "[]"
         and scopes = shadowScopes
         and b = "constDeclarator (accessorCall (Identifier ''ns'')) 1"
         and init = "accessorCall (Identifier ''ns'')" and bindingScope = 1
         and c = "Identifier ''useTranslations''" and args = "[Identifier ''ns'']"
         and parse = rejectAll and importer = None and ns = "''global''"
         and varNamespaceMap = Map.empty]
    by (simp add: shadowScopes_def shadowLookup_def eval_defs foldConstant_StringLiteral
          foldConstant_local_string
            [where x = "''ns''" and b = "constDeclarator (StringLiteral ''global'') 0"
               and a = "''global''" and sid = 0, unfolded constDeclarator_def])
  from whole shadow show ?thesis by simp
qed

text \<open>
  C5. Let the scope bind \<open>x\<close> and \<open>y\<close> to variable declarators initialised with the string
  literals \<open>a\<close> and \<open>b\<close>. A namespace-accessor call whose first argument is \<^verbatim>\<open>x + y\<close>, or
  the template literal \<^verbatim>\<open>`${x}${y}`\<close>, resolves to the namespace \<open>a @ b\<close>, not dynamic.
\<close>

theorem concatenated_namespace_resolves:
  assumes "scope x = Some bx" and "kind bx \<noteq> KModule"
    and "path bx = VariableDeclarator (Some (StringLiteral a)) sx"
    and "scope y = Some by" and "kind by \<noteq> KModule"
    and "path by = VariableDeclarator (Some (StringLiteral b)) sy"
  shows
    "resolveNamespaceFromCall parse (BinaryExpression ''+'' (Identifier x) (Identifier y) # rest)
       scope importer fileName line =
       \<lparr>nsNamespace = Some (a @ b), nsIsDynamic = False, nsDynamicPlaceholder = None\<rparr>
     \<and> resolveNamespaceFromCall parse
         (TemplateLiteral [Some [], Some [], Some []] [Identifier x, Identifier y] # rest)
         scope importer fileName line =
       \<lparr>nsNamespace = Some (a @ b), nsIsDynamic = False, nsDynamicPlaceholder = None\<rparr>"
proof -
  have fx: "\<And>d. d < 5 \<Longrightarrow>
      foldConstant parse (Some (Identifier x)) scope importer d = resolved (VString a)"
    using assms(1-3) by (rule foldConstant_local_string [rotated])
  have fy: "\<And>d. d < 5 \<Longrightarrow>
      foldConstant parse (Some (Identifier y)) scope importer d = resolved (VString b)"
    using assms(4-6) by (rule foldConstant_local_string [rotated])
  have plus: "foldConstant parse (Some (BinaryExpression ''+'' (Identifier x) (Identifier y)))
                scope importer 0 = resolved (VString (a @ b))"
    by (subst foldConstant.simps) (simp add: fx fy)
  have tmpl: "foldConstant parse
                (Some (TemplateLiteral [Some [], Some [], Some []] [Identifier x, Identifier y]))
                scope importer 0 = resolved (VString (a @ b))"
    by (subst foldConstant.simps) (simp add: fx fy cookedOr_def)
  show ?thesis
    by (simp add: resolveNamespaceFromCall_def plus tmpl)
qed

theorem concatenated_namespace_resolves_witness:
  "resolveNamespaceFromCall rejectAll [BinaryExpression ''+'' (Identifier ''a'') (Identifier ''b'')]
     concatScope None ''unknown'' 1 =
     \<lparr>nsNamespace = Some ''scope.sub'', nsIsDynamic = False, nsDynamicPlaceholder = None\<rparr>
   \<and> resolveNamespaceFromCall rejectAll
       [TemplateLiteral [Some [], Some [], Some []] [Identifier ''a'', Identifier ''b'']]
       concatScope None ''unknown'' 1 =
     \<lparr>nsNamespace = Some ''scope.sub'', nsIsDynamic = False, nsDynamicPlaceholder = None\<rparr>"
  using concatenated_namespace_resolves
    [of concatScope "''a''" "constDeclarator (StringLiteral ''scope'') 0" "''scope''" 0
        "''b''" "constDeclarator (StringLiteral ''.sub'') 0" "''.sub''" 0
        rejectAll "[]" None "''unknown''" 1]
  by (simp add: concatScope_def constDeclarator_def)

text \<open>
  C6. For an import by name the claim holds: the fold is dynamic without a resolver, on a
  module text the parser rejects and when no exported declarator bears the imported name,
  and otherwise it is the fold of the initializer of the last exported declarator of that
  name, in the empty scope, with no resolver, one level deeper (\<open>import_without_resolver\<close>,
  \<open>import_unparsable_module\<close>, \<open>named_import_no_export\<close>, \<open>named_import_last_export\<close>). It
  fails where the imported name is a string literal: the comparison
  \<^verbatim>\<open>decl.id.name === importedName\<close> then has \<^verbatim>\<open>undefined\<close> on the right, and every exported
  declarator whose target is a pattern has \<^verbatim>\<open>undefined\<close> on the left. The module below has no
  export named \<^verbatim>\<open>weird\<close>; folding \<^verbatim>\<open>X\<close> gives the initializer of the pattern all the same,
  while the import by name of the same module is dynamic.
\<close>

theorem string_named_import_matches_pattern_export:
  "foldConstant patternParser (Some (Identifier ''X'')) stringImportScope
     (Some patternImporter) 0 = resolved (VString ''zzz'')
   \<and> foldConstant patternParser (Some (Identifier ''X'')) namedImportScope
     (Some patternImporter) 0 = dynamic"
  by (simp add: foldConstant.simps stringImportScope_def namedImportScope_def patternImporter_def
        patternParser_def patternText_def patternTree_def parseCode_def)

text \<open>
  The import of the repository's test: \<^verbatim>\<open>CATEGORIES\<close> from a module that exports the array
  under that name resolves to the array through the resolver, and to dynamic without one.
\<close>

lemma imported_categories_resolve:
  "foldConstant constantsParser (Some (Identifier ''CATEGORIES'')) importScope
     (Some constantsImporter) 0 = resolved (VStringArray [''electronics'', ''books''])
   \<and> foldConstant constantsParser (Some (Identifier ''CATEGORIES'')) importScope None 0 = dynamic"
proof -
  let ?b = "\<lparr>kind = KModule, path = ImportSpecifier (Some ''CATEGORIES'') ''./constants''\<rparr>"
  let ?arr = "ArrayExpression [Some (StringLiteral ''electronics''), Some (StringLiteral ''books'')]"
  have sc: "importScope ''CATEGORIES'' = Some ?b"
    by (simp add: importScope_def)
  have "foldConstant constantsParser (Some (Identifier ''CATEGORIES'')) importScope
          (Some constantsImporter) 0 =
        foldConstant rejectAll (Some ?arr) emptyScope None (0 + 1)"
    by (rule named_import_last_export
          [where scope = importScope and x = "''CATEGORIES''" and b = ?b
             and code = constantsText and tree = constantsTree
             and pre = "[]" and declsBefore = "[]" and declsAfter = "[]" and post = "[]", OF sc])
       (simp_all add: constantsImporter_def constantsParser_def constantsText_def
          constantsTree_def)
  then have first: "foldConstant constantsParser (Some (Identifier ''CATEGORIES'')) importScope
          (Some constantsImporter) 0 = resolved (VStringArray [''electronics'', ''books''])"
    using foldConstant_string_array [of 1 rejectAll "[''electronics'', ''books'']" emptyScope None]
    by simp
  have second: "foldConstant constantsParser (Some (Identifier ''CATEGORIES'')) importScope None 0
      = dynamic"
    by (rule import_without_resolver
          [where scope = importScope and x = "''CATEGORIES''" and b = ?b, OF sc]) simp_all
  from first second show ?thesis by simp
qed

text \<open>
  C7. Beyond depth 5 \<open>foldConstant\<close> returns dynamic, whatever the node, scope and resolver.
  A node that heads a chain of \<open>k\<close> identifier aliases folds to dynamic from depth \<open>d\<close> as soon
  as \<open>d + k\<close> exceeds 5: from depth 0, every chain of six or more aliases, and every cyclic
  one. The recursive calls of the function and of its loops are well-founded at every
  argument (the domain predicate of the definition holds everywhere), so the fold
  terminates on every input.
\<close>

theorem foldConstant_depth_bounded:
  "(5 < depth \<longrightarrow> foldConstant parse node scope importer depth = dynamic)
   \<and> (\<forall>k n. aliasChain scope k n \<and> 5 < depth + k \<longrightarrow>
         foldConstant parse (Some n) scope importer depth = dynamic)
   \<and> foldConstant_foldElements_foldProperties_foldTemplate_foldImported_dom
       (Inl (Inl (parse, node, scope, importer, depth)))"
proof (intro conjI allI impI)
  assume "5 < depth"
  then show "foldConstant parse node scope importer depth = dynamic"
    by (rule foldConstant_beyond_bound)
next
  fix k n
  assume "aliasChain scope k n \<and> 5 < depth + k"
  then show "foldConstant parse (Some n) scope importer depth = dynamic"
    using aliasChain_dynamic by blast
next
  show "foldConstant_foldElements_foldProperties_foldTemplate_foldImported_dom
          (Inl (Inl (parse, node, scope, importer, depth)))"
    by (rule foldConstant_dom_total)
qed

theorem foldConstant_depth_bounded_witness:
  "aliasChain chainScope 6 (Identifier ''x6'')
   \<and> foldConstant rejectAll (Some (Identifier ''x6'')) chainScope None 0 = dynamic
   \<and> foldConstant rejectAll (Some (StringLiteral ''a'')) chainScope None 6 = dynamic"
proof -
  have chain: "aliasChain chainScope 6 (Identifier ''x6'')"
    by (simp add: eval_nat_numeral chainScope_def constDeclarator_def)
  from foldConstant_depth_bounded [of 0 rejectAll None chainScope None]
  have "\<forall>k n. aliasChain chainScope k n \<and> 5 < 0 + k \<longrightarrow>
          foldConstant rejectAll (Some n) chainScope None 0 = dynamic"
    by blast
  then have "aliasChain chainScope 6 (Identifier ''x6'') \<and> 5 < 0 + (6::nat) \<longrightarrow>
          foldConstant rejectAll (Some (Identifier ''x6'')) chainScope None 0 = dynamic"
    by blast
  with chain have "foldConstant rejectAll (Some (Identifier ''x6'')) chainScope None 0 = dynamic"
    by simp
  moreover from foldConstant_depth_bounded [of 6 rejectAll "Some (StringLiteral ''a'')" chainScope None]
  have "foldConstant rejectAll (Some (StringLiteral ''a'')) chainScope None 6 = dynamic"
    by simp
  ultimately show ?thesis using chain by simp
qed

text \<open>The bound is sharp: a chain of five aliases still resolves.\<close>

lemma five_aliases_resolve:
  "foldConstant rejectAll (Some (Identifier ''x5'')) chainScope None 0 = resolved (VString ''a'')"
  by (simp add: foldConstant.simps chainScope_def constDeclarator_def)

text \<open>
  C8. When the parser rejects the source text, accessor discovery and usage discovery both
  return the empty list. Neither function has an error result: \<open>parseCode\<close> has turned the
  parser's error into the absent tree.
\<close>

theorem parse_failure_empty:
  "parse code = Inl e \<Longrightarrow>
     analyzeUseTranslations parse basename code filePath importer = [] \<and>
     analyzeTranslationUsages parse code varNamespaceMap importer = []"
  by (simp add: analyzeUseTranslations_def analyzeTranslationUsages_def parseCode_def)

theorem parse_failure_empty_witness:
  "rejectAll ''const t = ;'' = Inl SyntaxError
   \<and> analyzeUseTranslations rejectAll id ''const t = ;'' None None = []
   \<and> analyzeTranslationUsages rejectAll ''const t = ;'' Map.empty None = []"
  using parse_failure_empty [of rejectAll "''const t = ;''" SyntaxError id None None Map.empty]
  by (simp add: rejectAll_def)

text \<open>
  C9. Whatever the node, scope, import resolver and depth, the result of \<open>foldConstant\<close> that
  is not dynamic has a value, which is a string, an array of strings or an array of
  string-keyed records, and the result that is dynamic has no value. The two fields of the
  record are independent in the type, so the statement is an invariant of the function: no
  path returns a dynamic record that carries a value, or a resolved one that lacks it.
\<close>

theorem foldConstant_result_shape:
  "(\<not> isDynamic (foldConstant parse node scope importer depth) \<longrightarrow>
      (\<exists>s. rvalue (foldConstant parse node scope importer depth) = Some (VString s)) \<or>
      (\<exists>ss. rvalue (foldConstant parse node scope importer depth) = Some (VStringArray ss)) \<or>
      (\<exists>os. rvalue (foldConstant parse node scope importer depth) = Some (VObjectArray os)))
   \<and> (isDynamic (foldConstant parse node scope importer depth) \<longrightarrow>
      rvalue (foldConstant parse node scope importer depth) = None)"
proof -
  have "wellFormed (foldConstant parse node scope importer depth)"
    by (rule foldConstant_wellFormed)
  then show ?thesis
    by (cases "rvalue (foldConstant parse node scope importer depth)")
       (auto simp: wellFormed_def intro: folded.exhaust)
qed

theorem foldConstant_result_shape_witness:
  "\<not> isDynamic (foldConstant rejectAll (Some (StringLiteral ''auth'')) emptyScope None 0)
   \<and> rvalue (foldConstant rejectAll (Some (StringLiteral ''auth'')) emptyScope None 0)
       = Some (VString ''auth'')
   \<and> isDynamic (foldConstant rejectAll (Some (Identifier ''ns'')) emptyScope None 0)
   \<and> rvalue (foldConstant rejectAll (Some (Identifier ''ns'')) emptyScope None 0) = None"
  using foldConstant_result_shape [of rejectAll "Some (StringLiteral ''auth'')" emptyScope None 0]
    foldConstant_result_shape [of rejectAll "Some (Identifier ''ns'')" emptyScope None 0]
  by (simp add: foldConstant.simps resolved_def dynamic_def emptyScope_def)

text \<open>
  The invariant is about the record returned. Inside an array of objects a property whose
  value folds to dynamic is left out of its record, and the array stays resolved.
\<close>

lemma dynamic_property_is_dropped:
  "foldConstant rejectAll
     (Some (ArrayExpression
        [Some (ObjectExpression
           [ObjectProperty (Identifier ''id'') (CallExpression (Identifier ''makeId'') []),
            ObjectProperty (Identifier ''label'') (StringLiteral ''nav.basic'')])]))
     emptyScope None 0 = resolved (VObjectArray [[(''label'', ''nav.basic'')]])"
  by (simp add: foldConstant.simps setProperty_def)

text \<open>
  C10. A call whose callee is a member expression on an identifier \<open>v\<close>, with a property
  node that is not an identifier (so that it has no \<^verbatim>\<open>name\<close>), is handled exactly as the
  plain call of \<open>v\<close> with the same arguments: no method name, no filter.
\<close>

theorem non_identifier_property_bypasses_filter:
  assumes "nodeName propNode = None"
  shows "visitCallExpression parse scopes varNamespaceMap importer
           (nodePath\<lparr>callee := MemberExpression (Identifier v) propNode\<rparr>) =
         visitCallExpression parse scopes varNamespaceMap importer
           (nodePath\<lparr>callee := Identifier v\<rparr>)"
  using assms by (simp add: visitCallExpression_def truthy_def Let_def split: list.split)

text \<open>
  The witness of C10 is \<^verbatim>\<open>t['raw']('k')\<close> with \<^verbatim>\<open>t\<close> mapped to \<^verbatim>\<open>common\<close>. The filter is
  passed by \<^verbatim>\<open>t['format']('k')\<close> in the same way, while \<^verbatim>\<open>t.format('k')\<close> is dropped.
\<close>

theorem non_identifier_property_bypasses_filter_witness:
  "nodeName (StringLiteral ''raw'') = None
   \<and> visitCallExpression rejectAll (\<lambda>_. emptyScope) [''t'' \<mapsto> ''common''] None
       \<lparr>callee = MemberExpression (Identifier ''t'') (StringLiteral ''raw''),
        arguments = [StringLiteral ''k''],
        firstArgStart = Some 9, firstArgEnd = Some 12, callScope = 0\<rparr> =
     [\<lparr>key = ''common.k'', start = 9, endOffset = 12, quoted = True,
       namespace = Some ''common'', variableName = ''t''\<rparr>]"
  using non_identifier_property_bypasses_filter
    [where propNode = "StringLiteral ''raw''" and parse = rejectAll and scopes = "\<lambda>_. emptyScope"
       and varNamespaceMap = "[''t'' \<mapsto> ''common'']" and importer = None and v = "''t''"
       and nodePath = "\<lparr>callee = OtherNode, arguments = [StringLiteral ''k''],
          firstArgStart = Some 9, firstArgEnd = Some 12, callScope = 0\<rparr>"]
  by (simp add: nodeName_def visitCallExpression_def namespaceOf_def scopeNamespace_def
        emptyScope_def keysToEmit_def truthy_def orZero_def isLiteralArg_def
        foldConstant_StringLiteral)

lemma computed_method_passes_named_method_dropped:
  "map key (visitCallExpression rejectAll (\<lambda>_. emptyScope) [''t'' \<mapsto> ''common''] None
       \<lparr>callee = MemberExpression (Identifier ''t'') (StringLiteral ''format''),
        arguments = [StringLiteral ''k''],
        firstArgStart = Some 12, firstArgEnd = Some 15, callScope = 0\<rparr>) = [''common.k'']
   \<and> visitCallExpression rejectAll (\<lambda>_. emptyScope) [''t'' \<mapsto> ''common''] None
       \<lparr>callee = MemberExpression (Identifier ''t'') (Identifier ''format''),
        arguments = [StringLiteral ''k''],
        firstArgStart = Some 9, firstArgEnd = Some 12, callScope = 0\<rparr> = []"
  by (simp add: nodeName_def visitCallExpression_def namespaceOf_def scopeNamespace_def
        emptyScope_def keysToEmit_def truthy_def orZero_def isLiteralArg_def
        foldConstant_StringLiteral)

section \<open>The model against the repository's tests\<close>

text \<open>
  Some expectations of \<^verbatim>\<open>ast-analyzer.test.ts\<close>, run on the model: an accessor call with no
  argument and one with a call as argument give the placeholders of the tests; mapping over
  an array of objects and reading a property of the parameter gives one key per object; a
  key that is a variable bound to a string is resolved and not quoted.
\<close>

lemma test_no_argument_accessor:
  "resolveNamespaceFromCall rejectAll [] emptyScope None ''unknown'' 1 =
     \<lparr>nsNamespace = None, nsIsDynamic = True,
      nsDynamicPlaceholder = Some ''<no-namespace:unknown:L1>''\<rparr>"
  by (simp add: resolveNamespaceFromCall_def showNat.simps)

lemma test_dynamic_expression_accessor:
  "resolveNamespaceFromCall rejectAll [CallExpression (Identifier ''getNamespace'') []]
     emptyScope None ''unknown'' 1 =
     \<lparr>nsNamespace = None, nsIsDynamic = True,
      nsDynamicPlaceholder = Some ''<dynamic:unknown:L1>''\<rparr>"
  by (simp add: resolveNamespaceFromCall_def showNat.simps foldConstant.simps)

lemma test_object_array_map_iteration:
  "map key
     (visitCallExpression rejectAll
        (\<lambda>_. map_of
           [(''i'', paramOf (mapCallOn (Identifier ''ITEMS''))),
            (''ITEMS'', constDeclarator
               (ArrayExpression
                  [Some (ObjectExpression
                     [ObjectProperty (Identifier ''id'') (StringLiteral ''item1'')]),
                   Some (ObjectExpression
                     [ObjectProperty (Identifier ''id'') (StringLiteral ''item2'')])]) 0)])
        [''t'' \<mapsto> ''common''] None
        \<lparr>callee = Identifier ''t'',
         arguments = [MemberExpression (Identifier ''i'') (Identifier ''id'')],
         firstArgStart = Some 0, firstArgEnd = Some 0, callScope = 0\<rparr>) =
     [''common.item1'', ''common.item2'']"
  by (simp add: eval_defs paramOf_def mapCallOn_def foldConstant.simps asString_def
        resolved_def dynamic_def isPlainObject_def List.map_filter_def Let_def
        setProperty_def)

lemma test_key_from_variable:
  "visitCallExpression rejectAll
     (\<lambda>_. map_of [(''key'', constDeclarator (StringLiteral ''login.title'') 0)])
     [''t'' \<mapsto> ''auth''] None
     \<lparr>callee = Identifier ''t'', arguments = [Identifier ''key''],
      firstArgStart = Some 29, firstArgEnd = Some 32, callScope = 0\<rparr> =
     [\<lparr>key = ''auth.login.title'', start = 29, endOffset = 32, quoted = False,
       namespace = Some ''auth'', variableName = ''t''\<rparr>]"
  by (simp add: eval_defs foldConstant.simps)

end
